theory Spec2Isabelle
  imports Main "HOL-Library.Sublist"
begin

section \<open>JavaScript values\<close>

text \<open>
  A JavaScript string is the list of its UTF-16 code units, so that \<open>length\<close> is the
  source's \<open>.length\<close> and \<open>take n\<close> is \<open>.slice(0, n)\<close>. \<open>str\<close> embeds an ASCII
  literal; a line feed is the code unit 10.
\<close>

type_synonym jsstring = "nat list"

definition str :: "string \<Rightarrow> jsstring" where
  "str s = map of_char s"

definition nl :: jsstring where
  "nl = [10]"

text \<open>
  Values as \<open>JSON.parse\<close> produces them, plus \<open>undefined\<close> (the value of a missing
  property). Numbers are restricted to the integers of magnitude below 2^53, which
  JavaScript holds exactly and prints in plain decimal; an object is the list of its
  members.
\<close>

datatype jsval =
    JUndefined
  | JNull
  | JBool bool
  | JNum int
  | JStr jsstring
  | JArr "jsval list"
  | JObj "(jsstring \<times> jsval) list"

text \<open>A thrown value: an error object with its \<open>name\<close> and \<open>message\<close>.\<close>

datatype js_error = JsError (err_name: jsstring) (err_message: jsstring)

definition type_error :: "string \<Rightarrow> js_error" where
  "type_error msg = JsError (str ''TypeError'') (str msg)"

text \<open>Truthiness, as \<open>!x\<close>, \<open>x || y\<close> and \<open>x && y\<close> test it.\<close>

fun js_truthy :: "jsval \<Rightarrow> bool" where
  "js_truthy JUndefined = False"
| "js_truthy JNull = False"
| "js_truthy (JBool b) = b"
| "js_truthy (JNum n) = (n \<noteq> 0)"
| "js_truthy (JStr s) = (s \<noteq> [])"
| "js_truthy (JArr xs) = True"
| "js_truthy (JObj kvs) = True"

definition js_or :: "jsval \<Rightarrow> jsval \<Rightarrow> jsval" where
  "js_or a b = (if js_truthy a then a else b)"

text \<open>
  Property read \<open>v.key\<close>, for the keys the source reads (\<open>keyword\<close>, \<open>organic\<close>,
  \<open>length\<close>, \<open>title\<close>, \<open>link\<close>, \<open>snippet\<close>). Reading a property of \<open>null\<close> or
  \<open>undefined\<close> throws a TypeError; arrays and strings have \<open>length\<close>; every other
  read of a member that is not there yields \<open>undefined\<close>. The methods a value inherits
  are not modelled (of the keys above only \<open>link\<close> of a string is one).
\<close>

fun get_prop :: "jsval \<Rightarrow> jsstring \<Rightarrow> js_error + jsval" where
  "get_prop JUndefined key = Inl (type_error ''Cannot read properties of undefined'')"
| "get_prop JNull key = Inl (type_error ''Cannot read properties of null'')"
| "get_prop (JObj kvs) key = Inr (case map_of kvs key of Some v \<Rightarrow> v | None \<Rightarrow> JUndefined)"
| "get_prop (JArr xs) key = Inr (if key = str ''length'' then JNum (int (length xs)) else JUndefined)"
| "get_prop (JStr s) key = Inr (if key = str ''length'' then JNum (int (length s)) else JUndefined)"
| "get_prop (JBool b) key = Inr JUndefined"
| "get_prop (JNum n) key = Inr JUndefined"

text \<open>Decimal rendering of a number, as a template literal interpolates it.\<close>

fun show_nat :: "nat \<Rightarrow> jsstring" where
  "show_nat n = (if n < 10 then [48 + n] else show_nat (n div 10) @ [48 + n mod 10])"

declare show_nat.simps [simp del]

definition show_int :: "int \<Rightarrow> jsstring" where
  "show_int i = (if i < 0 then str ''-'' @ show_nat (nat (- i)) else show_nat (nat i))"

text \<open>\<open>Array.prototype.join\<close> on a list of strings.\<close>

fun js_join :: "jsstring \<Rightarrow> jsstring list \<Rightarrow> jsstring" where
  "js_join sep [] = []"
| "js_join sep [x] = x"
| "js_join sep (x # y # ys) = x @ sep @ js_join sep (y # ys)"

text \<open>
  The string a value converts to, as \<open>${v}\<close> in a template literal performs it: an
  array joins its elements with commas (\<open>null\<close> and \<open>undefined\<close> elements as the
  empty string), a plain object is \<open>[object Object]\<close>. This is the result for a value
  whose conversion succeeds; \<open>printable\<close> and \<open>js_string_of\<close> below add the failure.
\<close>

fun js_to_string :: "jsval \<Rightarrow> jsstring" where
  "js_to_string JUndefined = str ''undefined''"
| "js_to_string JNull = str ''null''"
| "js_to_string (JBool b) = (if b then str ''true'' else str ''false'')"
| "js_to_string (JNum n) = show_int n"
| "js_to_string (JStr s) = s"
| "js_to_string (JArr xs) =
     js_join (str '','')
       (map (\<lambda>x. if x = JUndefined \<or> x = JNull then [] else js_to_string x) xs)"
| "js_to_string (JObj kvs) = str ''[object Object]''"

text \<open>
  The conversion fails on an object with a member of its own named \<open>toString\<close>: the
  member is not a function, and the inherited \<open>valueOf\<close> returns the object itself, so
  the conversion throws a TypeError. An array fails when one of its elements does.
\<close>

fun printable :: "jsval \<Rightarrow> bool" where
  "printable (JObj kvs) = (map_of kvs (str ''toString'') = None)"
| "printable (JArr xs) = list_all printable xs"
| "printable v = True"

definition js_string_of :: "jsval \<Rightarrow> js_error + jsstring" where
  "js_string_of v =
     (if printable v then Inr (js_to_string v)
      else Inl (type_error ''Cannot convert object to primitive value''))"

section \<open>Responses of the transport\<close>

text \<open>
  What a read of the upstream body stream settles to: a chunk, end of stream, or a
  rejection.
\<close>

type_synonym bytes = "nat list"

datatype read_result = ReadChunk bytes | ReadDone | ReadFails js_error

text \<open>
  A response, seen through the accessors the source uses: \<open>res.status\<close>,
  \<open>await res.text()\<close>, \<open>await res.json()\<close> (either may reject) and \<open>res.body\<close>,
  which is \<open>null\<close> (\<open>None\<close>) or a stream. The stream is the list of results of the
  successive \<open>reader.read()\<close> calls, each with the number of 15-second keep-alive timers
  that expire before that read settles; reads past the end of the list report end of
  stream. Every read is taken to settle eventually.
\<close>

record response =
  status :: nat
  body_text :: "js_error + jsstring"
  body_json :: "js_error + jsval"
  body_stream :: "(nat \<times> read_result) list option"

text \<open>\<open>res.ok\<close>: the transport sets it exactly for the statuses 200 to 299.\<close>

definition response_ok :: "response \<Rightarrow> bool" where
  "response_ok res \<longleftrightarrow> 200 \<le> status res \<and> status res \<le> 299"

text \<open>A call of \<open>fetch\<close> resolves to a response or rejects (network failure, abort).\<close>

datatype fetch_outcome = Rejects js_error | Resolves response

section \<open>fetchWithRetry\<close>

text \<open>
  The effects of \<open>fetchWithRetry\<close>: the attempts it makes and the delays it sleeps, in
  order.
\<close>

datatype net_event = Fetched nat | Slept nat

fun is_fetch :: "net_event \<Rightarrow> bool" where
  "is_fetch (Fetched i) = True"
| "is_fetch (Slept ms) = False"

text \<open>The test of line 18 under which a response is returned at once.\<close>

definition accepted :: "response \<Rightarrow> bool" where
  "accepted res \<longleftrightarrow>
     response_ok res \<or> (400 \<le> status res \<and> status res < 500 \<and> status res \<noteq> 429)"

text \<open>
  The loop \<open>for (let i = 0; i <= maxRetries; i++)\<close> from iteration \<open>i\<close>, with the log of
  effects so far. \<open>attempt i\<close> is what the \<open>fetch\<close> of iteration \<open>i\<close> settles to. The result
  is the thrown error, or the returned response; the loop left without a return yields
  \<open>undefined\<close> (\<open>None\<close>).
\<close>

function fetchWithRetry_from ::
  "(nat \<Rightarrow> fetch_outcome) \<Rightarrow> nat \<Rightarrow> nat \<Rightarrow> net_event list
     \<Rightarrow> net_event list \<times> (js_error + response option)" where
  "fetchWithRetry_from attempt maxRetries i log =
     (if i \<le> maxRetries then
        (case attempt i of
           Resolves res \<Rightarrow>
             if accepted res then (log @ [Fetched i], Inr (Some res))
             else if i = maxRetries then (log @ [Fetched i], Inr (Some res))
             else fetchWithRetry_from attempt maxRetries (Suc i)
                    (log @ [Fetched i, Slept (1000 * (i + 1))])
         | Rejects e \<Rightarrow>
             if err_name e = str ''AbortError'' then (log @ [Fetched i], Inl e)
             else if i = maxRetries then (log @ [Fetched i], Inl e)
             else fetchWithRetry_from attempt maxRetries (Suc i)
                    (log @ [Fetched i, Slept (1000 * (i + 1))]))
      else (log, Inr None))"
  by pat_completeness auto
termination
  by (relation "measure (\<lambda>(attempt, maxRetries, i, log). Suc maxRetries - i)") auto

definition fetchWithRetry ::
  "(nat \<Rightarrow> fetch_outcome) \<Rightarrow> nat \<Rightarrow> net_event list \<times> (js_error + response option)" where
  "fetchWithRetry attempt maxRetries = fetchWithRetry_from attempt maxRetries 0 []"

declare fetchWithRetry_from.simps [simp del]

section \<open>Configuration and provider calls\<close>

text \<open>
  An environment variable is a string or absent (\<open>undefined\<close>); \<open>env_set\<close> is its
  truthiness.
\<close>

definition env_set :: "jsstring option \<Rightarrow> bool" where
  "env_set v \<longleftrightarrow> (case v of None \<Rightarrow> False | Some s \<Rightarrow> s \<noteq> [])"

record config =
  apiKey :: "jsstring option"
  baseUrl :: "jsstring option"
  systemPromptEnv :: "jsstring option"
  serperKey :: "jsstring option"
  jinaKey :: "jsstring option"
  modelNameEnv :: "jsstring option"

text \<open>
  The request sent to the AI provider. The user message is the fixed template of lines
  200 to 221, which interpolates the keyword and the search context; it is kept as these
  two arguments.
\<close>

record ai_request =
  endpoint :: jsstring
  model :: jsstring
  system_message :: jsstring
  user_keyword :: jsstring
  user_context :: jsstring

text \<open>
  The calls made to the three providers: the search query, the extraction URL with its
  Authorization header if any, and the AI request (one entry for each attempt).
\<close>

datatype call =
    SearchCall jsval
  | ExtractCall jsstring "jsstring option"
  | AICall ai_request

text \<open>
  What the providers answer: the search provider for a query, the extraction provider
  for a request URL, the AI provider at each attempt of \<open>fetchWithRetry\<close>. A timeout
  of the source's abort timers shows as a rejection named \<open>AbortError\<close>.
\<close>

record environment =
  search :: "jsval \<Rightarrow> fetch_outcome"
  jina :: "jsstring \<Rightarrow> fetch_outcome"
  ai :: "nat \<Rightarrow> fetch_outcome"

section \<open>fetchSerperSearch\<close>

text \<open>The \<open>try\<close> block of lines 38 to 62, from the settled \<open>fetch\<close> on.\<close>

definition fetchSerperSearch_try :: "fetch_outcome \<Rightarrow> js_error + jsval" where
  "fetchSerperSearch_try outcome =
     (case outcome of
        Rejects e \<Rightarrow> Inl e
      | Resolves response \<Rightarrow>
          if \<not> response_ok response then Inr JNull
          else (case body_json response of
                  Inl e \<Rightarrow> Inl e
                | Inr data \<Rightarrow>
                    (case get_prop data (str ''organic'') of
                       Inl e \<Rightarrow> Inl e
                     | Inr organic \<Rightarrow> Inr (js_or organic (JArr [])))))"

text \<open>The function: the calls it makes, and what it returns (\<open>Inl\<close> would be a throw).\<close>

definition fetchSerperSearch ::
  "(jsval \<Rightarrow> fetch_outcome) \<Rightarrow> jsval \<Rightarrow> jsstring option \<Rightarrow> call list \<times> (js_error + jsval)" where
  "fetchSerperSearch provider query key =
     (if \<not> js_truthy query \<or> \<not> env_set key then ([], Inr JNull)
      else ([SearchCall query],
            case fetchSerperSearch_try (provider query) of
              Inl error \<Rightarrow> Inr JNull
            | Inr results \<Rightarrow> Inr results))"

section \<open>fetchJinaContent\<close>

definition MAX_CHARS :: nat where
  "MAX_CHARS = 35000"

definition truncation_marker :: jsstring where
  "truncation_marker = nl @ nl @ str ''...(truncated)''"

text \<open>
  The request URL of line 86, for a link whose string conversion succeeds (any other
  link makes the conversion fail inside the \<open>try\<close> block, which is not modelled here).
\<close>

definition jina_url :: "jsval \<Rightarrow> jsstring" where
  "jina_url url = str ''https://r.jina.ai/'' @ js_to_string url"

definition authorization :: "jsstring option \<Rightarrow> jsstring option" where
  "authorization key =
     (case key of
        None \<Rightarrow> None
      | Some k \<Rightarrow> if k = [] then None else Some (str ''Bearer '' @ k))"

text \<open>The \<open>try\<close> block of lines 76 to 98, from the settled \<open>fetch\<close> on.\<close>

definition fetchJinaContent_try :: "fetch_outcome \<Rightarrow> js_error + jsstring option" where
  "fetchJinaContent_try outcome =
     (case outcome of
        Rejects e \<Rightarrow> Inl e
      | Resolves response \<Rightarrow>
          if \<not> response_ok response then Inr None
          else (case body_text response of
                  Inl e \<Rightarrow> Inl e
                | Inr text \<Rightarrow>
                    Inr (Some (if length text > MAX_CHARS
                               then take MAX_CHARS text @ truncation_marker
                               else text))))"

text \<open>
  The function: the calls it makes, and what it returns, \<open>null\<close> being \<open>None\<close>
  (\<open>Inl\<close> would be a throw).
\<close>

definition fetchJinaContent ::
  "(jsstring \<Rightarrow> fetch_outcome) \<Rightarrow> jsval \<Rightarrow> jsstring option
     \<Rightarrow> call list \<times> (js_error + jsstring option)" where
  "fetchJinaContent provider url key =
     (if \<not> js_truthy url then ([], Inr None)
      else ([ExtractCall (jina_url url) (authorization key)],
            case fetchJinaContent_try (provider (jina_url url)) of
              Inl error \<Rightarrow> Inr None
            | Inr text \<Rightarrow> Inr text))"

section \<open>The fan-out over the top results\<close>

record enriched =
  title :: jsval
  link :: jsval
  snippet :: jsval
  content :: jsval

text \<open>An entry of the array \<open>Promise.allSettled\<close> resolves to.\<close>

datatype 'a settled = Fulfilled 'a | Rejected js_error

text \<open>
  The async callback of lines 171 to 180 for one search result: the calls it makes and
  how its promise settles. Reading \<open>res.link\<close> of a \<open>null\<close> or \<open>undefined\<close>
  result throws, which rejects the promise.
\<close>

definition enrich ::
  "(jsstring \<Rightarrow> fetch_outcome) \<Rightarrow> jsstring option \<Rightarrow> jsval \<Rightarrow> call list \<times> enriched settled" where
  "enrich provider key res =
     (case get_prop res (str ''link'') of
        Inl e \<Rightarrow> ([], Rejected e)
      | Inr res_link \<Rightarrow>
          (case fetchJinaContent provider res_link key of
             (cs, Inl e) \<Rightarrow> (cs, Rejected e)
           | (cs, Inr markdown) \<Rightarrow>
               (case get_prop res (str ''title'') of
                  Inl e \<Rightarrow> (cs, Rejected e)
                | Inr res_title \<Rightarrow>
                    (case get_prop res (str ''snippet'') of
                       Inl e \<Rightarrow> (cs, Rejected e)
                     | Inr res_snippet \<Rightarrow>
                         (cs, Fulfilled
                            \<lparr>title = res_title, link = res_link, snippet = res_snippet,
                             content = (case markdown of
                                          None \<Rightarrow> res_snippet
                                        | Some text \<Rightarrow>
                                            if text = [] then res_snippet else JStr text)\<rparr>)))))"

text \<open>
  \<open>topResults.map(...)\<close> followed by \<open>Promise.allSettled\<close>: the callbacks start in rank
  order, and the settled array keeps that order.
\<close>

definition fan_out ::
  "(jsstring \<Rightarrow> fetch_outcome) \<Rightarrow> jsstring option \<Rightarrow> jsval list
     \<Rightarrow> call list \<times> enriched settled list" where
  "fan_out provider key topResults =
     (concat (map (\<lambda>res. fst (enrich provider key res)) topResults),
      map (\<lambda>res. snd (enrich provider key res)) topResults)"

text \<open>
  \<open>v.slice(0, n)\<close>: a prefix of a string or an array; a TypeError on a value without
  that method.
\<close>

definition js_slice :: "jsval \<Rightarrow> nat \<Rightarrow> js_error + jsval" where
  "js_slice v n =
     (case v of
        JStr s \<Rightarrow> Inr (JStr (take n s))
      | JArr xs \<Rightarrow> Inr (JArr (take n xs))
      | JUndefined \<Rightarrow> Inl (type_error ''Cannot read properties of undefined'')
      | JNull \<Rightarrow> Inl (type_error ''Cannot read properties of null'')
      | _ \<Rightarrow> Inl (type_error ''slice is not a function''))"

text \<open>
  The label that opens a reference block, and the block of line 187. The template
  converts the title, the link and the snippet in this order, then slices the content
  and converts the excerpt; the first of these steps that throws ends the rendering.
\<close>

definition block_label :: "nat \<Rightarrow> jsstring" where
  "block_label n = str ''[Result #'' @ show_nat n @ str '']''"

definition reference_block :: "nat \<Rightarrow> enriched \<Rightarrow> js_error + jsstring" where
  "reference_block index res =
     (case js_string_of (title res) of
        Inl e \<Rightarrow> Inl e
      | Inr title_text \<Rightarrow>
     (case js_string_of (link res) of
        Inl e \<Rightarrow> Inl e
      | Inr link_text \<Rightarrow>
     (case js_string_of (snippet res) of
        Inl e \<Rightarrow> Inl e
      | Inr snippet_text \<Rightarrow>
     (case js_slice (content res) 2000 of
        Inl e \<Rightarrow> Inl e
      | Inr excerpt \<Rightarrow>
     (case js_string_of excerpt of
        Inl e \<Rightarrow> Inl e
      | Inr excerpt_text \<Rightarrow>
          Inr (block_label (index + 1) @ nl
               @ str ''Title: '' @ title_text @ nl
               @ str ''URL: '' @ link_text @ nl
               @ str ''Snippet: '' @ snippet_text @ nl
               @ str ''Full Content (Excerpt): '' @ excerpt_text @ nl))))))"

text \<open>
  \<open>fetchedResults.map((p, index) => ...)\<close> from position \<open>index\<close>: a block for a
  fulfilled entry, \<open>null\<close> for a rejected one; a throw of the callback ends the map.
\<close>

fun reference_entries :: "nat \<Rightarrow> enriched settled list \<Rightarrow> js_error + jsstring option list" where
  "reference_entries index [] = Inr []"
| "reference_entries index (Fulfilled res # ps) =
     (case reference_block index res of
        Inl e \<Rightarrow> Inl e
      | Inr block \<Rightarrow>
          (case reference_entries (Suc index) ps of
             Inl e \<Rightarrow> Inl e
           | Inr entries \<Rightarrow> Inr (Some block # entries)))"
| "reference_entries index (Rejected reason # ps) =
     (case reference_entries (Suc index) ps of
        Inl e \<Rightarrow> Inl e
      | Inr entries \<Rightarrow> Inr (None # entries))"

text \<open>\<open>.filter(Boolean)\<close>: drops \<open>null\<close> and the empty string.\<close>

definition filter_Boolean :: "jsstring option list \<Rightarrow> jsstring list" where
  "filter_Boolean entries =
     List.map_filter (\<lambda>entry. case entry of
                                None \<Rightarrow> None
                              | Some block \<Rightarrow> if block = [] then None else Some block) entries"

definition reference_separator :: jsstring where
  "reference_separator = nl @ nl @ str ''===================='' @ nl @ nl"

text \<open>The reference blocks of lines 184 to 190 before they are joined, and the join.\<close>

definition reference_blocks :: "enriched settled list \<Rightarrow> js_error + jsstring list" where
  "reference_blocks fetchedResults =
     (case reference_entries 0 fetchedResults of
        Inl e \<Rightarrow> Inl e
      | Inr entries \<Rightarrow> Inr (filter_Boolean entries))"

definition references_of :: "enriched settled list \<Rightarrow> js_error + jsstring" where
  "references_of fetchedResults =
     (case reference_blocks fetchedResults of
        Inl e \<Rightarrow> Inl e
      | Inr blocks \<Rightarrow> Inr (js_join reference_separator blocks))"

section \<open>The output stream\<close>

text \<open>
  The status messages of the handler, one constructor for each \<open>sendStatus\<close> call with
  the values its template interpolates: missing keyword (line 148), search started
  (154, the keyword), no search key (162), pages captured (166, the number of results),
  collection complete (193), no real-time data (196), AI error (251, the status code
  and the body text), system error (287, the error's message).
\<close>

datatype status_msg =
    MissingKeyword
  | Searching jsstring
  | NoSearchApi
  | Captured jsstring
  | CollectionDone
  | NoRealtimeData
  | AIError nat jsstring
  | SystemError jsstring

text \<open>The three messages that report an error.\<close>

fun is_error_msg :: "status_msg \<Rightarrow> bool" where
  "is_error_msg MissingKeyword = True"
| "is_error_msg (AIError code text) = True"
| "is_error_msg (SystemError text) = True"
| "is_error_msg other = False"

text \<open>
  The text of each message, as its template literal builds it (characters outside ASCII
  by their code units). \<open>sendStatus\<close> enqueues the encoding of \<open>data: \<close>, the JSON
  of a chat-completion chunk whose delta content is this text, and two line feeds.
\<close>

fun status_text :: "status_msg \<Rightarrow> jsstring" where
  "status_text MissingKeyword =
     [62, 32, 10060] @ str '' **'' @
       [38169, 35823, 65306, 26410, 25552, 20379, 20851, 38190, 35789, 65292, 20998, 26512,
        26080, 27861, 24320, 22987, 12290, 42, 42, 10, 10]"
| "status_text (Searching keyword) =
     [62, 32, 55357, 56589] @ str '' **'' @ [27491, 22312, 20998, 26512] @
       str '' Google (US) '' @ [25628, 32034, 32467, 26524, 65306] @ str ''** '' @ [34] @
       keyword @ [34] @ str ''...'' @ [10, 10]"
| "status_text NoSearchApi =
     [62, 32, 9888, 65039] @ str '' **'' @ [26410, 37197, 32622, 25628, 32034] @
       str '' API'' @ [65292, 20165, 33021, 36827, 34892, 29702, 35770, 20998, 26512] @
       str ''...**'' @ [10, 10]"
| "status_text (Captured count) =
     [62, 32, 55357, 56534] @ str '' **'' @ [25429, 33719] @ str '' Top '' @ count @
       [32, 25490, 21517, 39029, 38754, 65292, 27491, 22312, 20840, 32593, 24182, 34892,
        25235, 21462, 20869, 23481] @
       str ''...**'' @ [10, 10]"
| "status_text CollectionDone =
     [62, 32, 9989] @ str '' **'' @ [25968, 25454, 37319, 38598, 23436, 25104, 65292] @
       str ''AI '' @
       [27491, 22312, 26500, 24314, 24847, 22270, 20998, 26512, 27169, 22411] @
       str ''...**'' @ [10, 10] @ str ''---'' @ [10, 10]"
| "status_text NoRealtimeData =
     [62, 32, 9888, 65039] @ str '' **'' @
       [26410, 33719, 21462, 21040, 23454, 26102, 25968, 25454, 65292, 23558, 36827, 34892,
        36890, 29992, 29702, 35770, 20998, 26512] @
       str ''...**'' @ [10, 10] @ str ''---'' @ [10, 10]"
| "status_text (AIError code errText) =
     [10, 10, 10060] @ str '' **AI Error**: '' @ show_nat code @ [10] @ errText"
| "status_text (SystemError message) =
     [10, 10, 10060] @ str '' **System Error**: '' @ message"

text \<open>
  A frame on the wire: a status frame (the chunk built around a status message), a
  chunk of the upstream relayed as it is, or the keep-alive comment
  \<open>: keep-alive\<close> followed by two line feeds.
\<close>

datatype frame = Status status_msg | Relayed bytes | KeepAlive

fun is_error_frame :: "frame \<Rightarrow> bool" where
  "is_error_frame (Status m) = is_error_msg m"
| "is_error_frame other = False"

text \<open>
  The state the handler acts on: the frames enqueued, whether the stream is closed, how
  many times it went from open to closed, and the provider calls made. The consumer is
  taken to keep reading: a stream cancelled by the client is not modelled.
\<close>

record world =
  frames :: "frame list"
  closed :: bool
  closings :: nat
  calls :: "call list"

definition initial_world :: world where
  "initial_world = \<lparr>frames = [], closed = False, closings = 0, calls = []\<rparr>"

text \<open>
  \<open>controller.enqueue\<close> and \<open>controller.close\<close> throw a TypeError on a closed
  stream.
\<close>

definition enqueue :: "frame \<Rightarrow> world \<Rightarrow> js_error + world" where
  "enqueue f w =
     (if closed w then Inl (type_error ''Invalid state: Controller is already closed'')
      else Inr (w\<lparr>frames := frames w @ [f]\<rparr>))"

definition close :: "world \<Rightarrow> js_error + world" where
  "close w =
     (if closed w then Inl (type_error ''Invalid state: Controller is already closed'')
      else Inr (w\<lparr>closed := True, closings := closings w + 1\<rparr>))"

text \<open>\<open>sendStatus\<close> (lines 135 to 144) swallows a failure of the enqueue.\<close>

definition sendStatus :: "status_msg \<Rightarrow> world \<Rightarrow> world" where
  "sendStatus m w = (case enqueue (Status m) w of Inl e \<Rightarrow> w | Inr w' \<Rightarrow> w')"

text \<open>The \<open>finally\<close> block of line 289: a close whose failure is swallowed.\<close>

definition close_quietly :: "world \<Rightarrow> world" where
  "close_quietly w = (case close w of Inl e \<Rightarrow> w | Inr w' \<Rightarrow> w')"

definition add_calls :: "call list \<Rightarrow> world \<Rightarrow> world" where
  "add_calls cs w = w\<lparr>calls := calls w @ cs\<rparr>"

section \<open>The relay loop\<close>

text \<open>
  How a block of the handler ends: it runs to its end or returns, it throws, or it never
  ends.
\<close>

datatype exit = Completed | Thrown js_error | Livelock

text \<open>
  The loop of lines 259 to 283 over the reads of the upstream. Each iteration races the
  pending read against a fresh timer. When the timer wins (the read outlasts it), a
  keep-alive frame is enqueued and the same pending read is raced again; when the read
  wins, its chunk is enqueued and the next read is issued, or the loop ends at end of
  stream. A rejected read is rethrown, unless its message is that of the timer's own
  rejection: the loop then takes it for the timer, keeps the rejected promise and never
  ends, enqueuing keep-alive frames without bound; the world given for that case is the
  one after the first of these frames.
\<close>

function relay_loop :: "(nat \<times> read_result) list \<Rightarrow> world \<Rightarrow> world \<times> exit" where
  "relay_loop [] w = (w, Completed)"
| "relay_loop ((Suc k, r) # reads) w =
     (case enqueue KeepAlive w of
        Inl e \<Rightarrow> (w, Thrown e)
      | Inr w' \<Rightarrow> relay_loop ((k, r) # reads) w')"
| "relay_loop ((0, ReadChunk v) # reads) w =
     (case enqueue (Relayed v) w of
        Inl e \<Rightarrow> (w, Thrown e)
      | Inr w' \<Rightarrow> relay_loop reads w')"
| "relay_loop ((0, ReadDone) # reads) w = (w, Completed)"
| "relay_loop ((0, ReadFails e) # reads) w =
     (if err_message e = str ''KEEP_ALIVE'' then
        (case enqueue KeepAlive w of
           Inl e' \<Rightarrow> (w, Thrown e')
         | Inr w' \<Rightarrow> (w', Livelock))
      else (w, Thrown e))"
  by pat_completeness auto
termination
  by (relation "measure (\<lambda>(reads, w). sum_list (map (\<lambda>(k, r). Suc k) reads))") auto

section \<open>The handler\<close>

text \<open>
  The two values of \<open>searchContext\<close> apart from the references: the sentence of line
  192 that introduces them (it ends with a line feed) and the sentence of line 195 that
  asks for a general analysis when there is no real-time result. Both are Chinese text,
  given by their code units.
\<close>

definition context_header :: jsstring where
  "context_header =
     [20197, 19979, 26159, 35813, 20851, 38190, 35789, 22312, 32, 71, 111, 111, 103,
      108, 101, 32, 40, 85, 83, 41, 32, 39318, 39029, 30340, 23454, 38469, 25490,
      21517, 32467, 26524, 21450, 20869, 23481, 65306, 10]"

definition fallback_context :: jsstring where
  "fallback_context =
     [65288, 26410, 33719, 21462, 21040, 23454, 26102, 25628, 32034, 32467, 26524,
      65292, 35831, 22522, 20110, 24744, 30340, 30693, 35782, 24211, 36827, 34892,
      36890, 29992, 20998, 26512, 65289]"

definition default_system_prompt :: jsstring where
  "default_system_prompt =
     str ''You are a Search Intent Analysis Expert. Analyze the provided search results to determine user intent, content gaps, and SEO strategy.''"

definition default_model :: jsstring where
  "default_model = str ''gemini-2.0-flash-exp''"

definition env_or :: "jsstring option \<Rightarrow> jsstring \<Rightarrow> jsstring" where
  "env_or v d = (case v of None \<Rightarrow> d | Some s \<Rightarrow> if s = [] then d else s)"

text \<open>
  The request of lines 223 to 245. The user message converts the keyword a second time;
  the banner of line 154 has converted it before, so the conversion succeeds here.
\<close>

definition build_request :: "config \<Rightarrow> jsval \<Rightarrow> jsstring \<Rightarrow> ai_request" where
  "build_request cfg keyword searchContext =
     \<lparr>endpoint = (case baseUrl cfg of None \<Rightarrow> str ''undefined'' | Some u \<Rightarrow> u)
                   @ str ''/chat/completions'',
      model = env_or (modelNameEnv cfg) default_model,
      system_message = env_or (systemPromptEnv cfg) default_system_prompt,
      user_keyword = js_to_string keyword,
      user_context = searchContext\<rparr>"

text \<open>
  The search stage, lines 156 to 163: the world after it and the value of
  \<open>searchResults\<close>.
\<close>

definition search_stage ::
  "config \<Rightarrow> environment \<Rightarrow> jsval \<Rightarrow> world \<Rightarrow> world \<times> (js_error + jsval)" where
  "search_stage cfg env keyword w =
     (if env_set (serperKey cfg) then
        (case fetchSerperSearch (search env) keyword (serperKey cfg) of
           (cs, Inl e) \<Rightarrow> (add_calls cs w, Inl e)
         | (cs, Inr searchResults) \<Rightarrow> (add_calls cs w, Inr searchResults))
      else (sendStatus NoSearchApi w, Inr (JArr [])))"

text \<open>
  The test \<open>searchResults && searchResults.length > 0\<close> of line 165. The comparison is
  numeric. Search results whose \<open>length\<close> is a string or an array (an object with such
  a member, which JavaScript would first convert to a number) are outside the model:
  their \<open>length\<close> is taken as not greater than zero.
\<close>

definition js_gt_zero :: "jsval \<Rightarrow> bool" where
  "js_gt_zero v = (case v of JNum n \<Rightarrow> 0 < n | JBool b \<Rightarrow> b | _ \<Rightarrow> False)"

definition results_length :: "jsval \<Rightarrow> jsval" where
  "results_length searchResults =
     (case get_prop searchResults (str ''length'') of Inl e \<Rightarrow> JUndefined | Inr n \<Rightarrow> n)"

definition has_results :: "jsval \<Rightarrow> bool" where
  "has_results searchResults \<longleftrightarrow>
     js_truthy searchResults \<and> js_gt_zero (results_length searchResults)"

text \<open>
  \<open>searchResults.slice(0, 8)\<close> and the \<open>.map\<close> on it: only an array has both.
\<close>

definition top_results :: "jsval \<Rightarrow> js_error + jsval list" where
  "top_results searchResults =
     (case searchResults of
        JArr xs \<Rightarrow> Inr (take 8 xs)
      | JStr s \<Rightarrow> Inl (type_error ''topResults.map is not a function'')
      | _ \<Rightarrow> Inl (type_error ''searchResults.slice is not a function''))"

text \<open>
  Lines 165 to 197: the world after the fan-out and the value of \<open>searchContext\<close>.
  The \<open>length\<close> that the banner of line 166 converts has passed the test of line 165,
  so it is a number or a boolean and its conversion succeeds.
\<close>

definition context_stage ::
  "config \<Rightarrow> environment \<Rightarrow> jsval \<Rightarrow> world \<Rightarrow> world \<times> (js_error + jsstring)" where
  "context_stage cfg env searchResults w =
     (if has_results searchResults then
        (let w1 = sendStatus (Captured (js_to_string (results_length searchResults))) w in
         case top_results searchResults of
           Inl e \<Rightarrow> (w1, Inl e)
         | Inr topResults \<Rightarrow>
             (case fan_out (jina env) (jinaKey cfg) topResults of
                (cs, fetchedResults) \<Rightarrow>
                  (case references_of fetchedResults of
                     Inl e \<Rightarrow> (add_calls cs w1, Inl e)
                   | Inr references \<Rightarrow>
                       (sendStatus CollectionDone (add_calls cs w1),
                        Inr (context_header @ references)))))
      else (sendStatus NoRealtimeData w, Inr fallback_context))"

text \<open>
  Lines 233 to 283: the request through \<open>fetchWithRetry\<close> with the default of two
  retries, the error frame and early return on a response that is not ok, the relay
  otherwise.
\<close>

definition ai_stage :: "(nat \<Rightarrow> fetch_outcome) \<Rightarrow> ai_request \<Rightarrow> world \<Rightarrow> world \<times> exit" where
  "ai_stage provider request w =
     (case fetchWithRetry provider 2 of
        (log, outcome) \<Rightarrow>
          (let w1 = add_calls (map (\<lambda>ev. AICall request) (filter is_fetch log)) w in
           case outcome of
             Inl e \<Rightarrow> (w1, Thrown e)
           | Inr None \<Rightarrow> (w1, Thrown (type_error ''Cannot read properties of undefined''))
           | Inr (Some upstreamResponse) \<Rightarrow>
               if \<not> response_ok upstreamResponse then
                 (case body_text upstreamResponse of
                    Inl e \<Rightarrow> (w1, Thrown e)
                  | Inr errText \<Rightarrow>
                      (let w2 = sendStatus (AIError (status upstreamResponse) errText) w1 in
                       case close w2 of
                         Inl e \<Rightarrow> (w2, Thrown e)
                       | Inr w3 \<Rightarrow> (w3, Completed)))
               else (case body_stream upstreamResponse of
                       None \<Rightarrow> (w1, Thrown (type_error ''Cannot read properties of null''))
                     | Some reads \<Rightarrow> relay_loop reads w1)))"

text \<open>
  Lines 153 to 197 together: the banner of line 154, whose template converts the
  keyword to a string (a failure of the conversion is thrown), then the search, then the
  fan-out on its results.
\<close>

definition prepare_context ::
  "config \<Rightarrow> environment \<Rightarrow> jsval \<Rightarrow> world \<Rightarrow> world \<times> (js_error + jsstring)" where
  "prepare_context cfg env keyword w =
     (case js_string_of keyword of
        Inl e \<Rightarrow> (w, Inl e)
      | Inr keyword_text \<Rightarrow>
          (case search_stage cfg env keyword (sendStatus (Searching keyword_text) w) of
             (w1, Inl e) \<Rightarrow> (w1, Inl e)
           | (w1, Inr searchResults) \<Rightarrow> context_stage cfg env searchResults w1))"

text \<open>The \<open>try\<close> block of lines 146 to 284.\<close>

definition start_try :: "config \<Rightarrow> environment \<Rightarrow> jsval \<Rightarrow> world \<Rightarrow> world \<times> exit" where
  "start_try cfg env keyword w =
     (if \<not> js_truthy keyword then
        (let w1 = sendStatus MissingKeyword w in
         case close w1 of
           Inl e \<Rightarrow> (w1, Thrown e)
         | Inr w2 \<Rightarrow> (w2, Completed))
      else
        (case prepare_context cfg env keyword w of
           (w2, Inl e) \<Rightarrow> (w2, Thrown e)
         | (w2, Inr searchContext) \<Rightarrow>
             ai_stage (ai env) (build_request cfg keyword searchContext) w2))"

text \<open>
  The \<open>start\<close> function of the stream, lines 134 to 291: the \<open>try\<close> block, the
  \<open>catch\<close> that reports the error's message, and the \<open>finally\<close> that closes. A run
  either finishes in a world or hangs in the relay loop.
\<close>

datatype run = Finished world | Hangs world

definition stream_start :: "config \<Rightarrow> environment \<Rightarrow> jsval \<Rightarrow> run" where
  "stream_start cfg env keyword =
     (case start_try cfg env keyword initial_world of
        (w, Completed) \<Rightarrow> Finished (close_quietly w)
      | (w, Thrown e) \<Rightarrow> Finished (close_quietly (sendStatus (SystemError (err_message e)) w))
      | (w, Livelock) \<Rightarrow> Hangs w)"

text \<open>
  The handler, lines 104 to 301: the plain responses 405, 400 and 500 before any
  stream exists, a TypeError when the body is \<open>null\<close> (the destructuring of line 117),
  the streamed response otherwise.
\<close>

record request =
  req_method :: jsstring
  req_json :: "js_error + jsval"

datatype handler_result = PlainResponse nat | HandlerThrows js_error | StreamResponse run

definition handler :: "config \<Rightarrow> environment \<Rightarrow> request \<Rightarrow> handler_result" where
  "handler cfg env req =
     (if req_method req \<noteq> str ''POST'' then PlainResponse 405
      else (case req_json req of
              Inl e \<Rightarrow> PlainResponse 400
            | Inr body \<Rightarrow>
                (case get_prop body (str ''keyword'') of
                   Inl e \<Rightarrow> HandlerThrows e
                 | Inr keyword \<Rightarrow>
                     if \<not> env_set (apiKey cfg) \<or> \<not> env_set (baseUrl cfg) then PlainResponse 500
                     else StreamResponse (stream_start cfg env keyword))))"

section \<open>Notions used to state the properties\<close>

text \<open>
  An outcome of an attempt after which \<open>fetchWithRetry\<close> goes on while attempts remain:
  a response that is not accepted, or a rejection other than an abort.
\<close>

definition retryable :: "fetch_outcome \<Rightarrow> bool" where
  "retryable outcome =
     (case outcome of
        Resolves res \<Rightarrow> \<not> accepted res
      | Rejects e \<Rightarrow> err_name e \<noteq> str ''AbortError'')"

text \<open>The effects of the attempts \<open>i\<close> to \<open>j - 1\<close>, each followed by its backoff delay.\<close>

definition retry_log :: "nat \<Rightarrow> nat \<Rightarrow> net_event list" where
  "retry_log i j = concat (map (\<lambda>k. [Fetched k, Slept (1000 * (k + 1))]) [i..<j])"

text \<open>
  For the reference blocks: a settled entry that was rejected; a content that has
  \<open>slice\<close> (a string or an array); an entry whose block can be rendered (it was
  rejected, or its content can be sliced and its title, link, snippet and content convert
  to strings); and the ranks (positions, from 0) of the fulfilled entries of a settled
  array, in increasing order.
\<close>

fun is_rejected :: "'a settled \<Rightarrow> bool" where
  "is_rejected (Rejected e) = True"
| "is_rejected (Fulfilled v) = False"

definition sliceable :: "jsval \<Rightarrow> bool" where
  "sliceable v = (case v of JStr s \<Rightarrow> True | JArr xs \<Rightarrow> True | _ \<Rightarrow> False)"

fun usable :: "enriched settled \<Rightarrow> bool" where
  "usable (Fulfilled res) \<longleftrightarrow>
     printable (title res) \<and> printable (link res) \<and> printable (snippet res)
     \<and> sliceable (content res) \<and> printable (content res)"
| "usable (Rejected e) = True"

definition fulfilled_ranks :: "'a settled list \<Rightarrow> nat list" where
  "fulfilled_ranks ps = filter (\<lambda>i. \<not> is_rejected (ps ! i)) [0..<length ps]"

text \<open>
  For the relay: the chunks among a list of frames; the chunks an upstream delivers
  before its first end of stream or rejection; and the frames the relay is expected to
  add for an upstream, each read preceded by one keep-alive frame for every timer it
  outlasts.
\<close>

fun relayed :: "frame list \<Rightarrow> bytes list" where
  "relayed [] = []"
| "relayed (Relayed v # fs) = v # relayed fs"
| "relayed (f # fs) = relayed fs"

fun delivered :: "(nat \<times> read_result) list \<Rightarrow> bytes list" where
  "delivered [] = []"
| "delivered ((k, ReadChunk v) # reads) = v # delivered reads"
| "delivered ((k, r) # reads) = []"

fun relay_frames :: "(nat \<times> read_result) list \<Rightarrow> frame list" where
  "relay_frames [] = []"
| "relay_frames ((k, ReadChunk v) # reads) = replicate k KeepAlive @ Relayed v # relay_frames reads"
| "relay_frames ((k, ReadDone) # reads) = replicate k KeepAlive"
| "relay_frames ((k, ReadFails e) # reads) =
     replicate k KeepAlive @ (if err_message e = str ''KEEP_ALIVE'' then [KeepAlive] else [])"

text \<open>
  An upstream none of whose rejections carries the message of the keep-alive timer, and
  an AI provider whose responses (at the three attempts the handler allows) all have
  such an upstream.
\<close>

definition timer_message_free :: "(nat \<times> read_result) list \<Rightarrow> bool" where
  "timer_message_free reads =
     list_all (\<lambda>(k, r). case r of ReadFails e \<Rightarrow> err_message e \<noteq> str ''KEEP_ALIVE'' | _ \<Rightarrow> True)
       reads"

definition plain_upstream :: "(nat \<Rightarrow> fetch_outcome) \<Rightarrow> bool" where
  "plain_upstream provider =
     list_all (\<lambda>i. case provider i of
                      Rejects e \<Rightarrow> True
                    | Resolves res \<Rightarrow>
                        (case body_stream res of
                           None \<Rightarrow> True
                         | Some reads \<Rightarrow> timer_message_free reads))
       [0..<3]"

text \<open>The stream was closed as many times as its state says: once, or not yet.\<close>

definition consistent :: "world \<Rightarrow> bool" where
  "consistent w \<longleftrightarrow> closings w = (if closed w then 1 else 0)"

section \<open>Example inputs\<close>

definition example_response :: "nat \<Rightarrow> response" where
  "example_response code =
     \<lparr>status = code, body_text = Inr (str ''internal error''), body_json = Inr (JObj []),
      body_stream = Some []\<rparr>"

definition abort_error :: js_error where
  "abort_error = JsError (str ''AbortError'') (str ''The operation was aborted'')"

definition always_304 :: "nat \<Rightarrow> fetch_outcome" where
  "always_304 i = Resolves (example_response 304)"

definition busy_then_missing :: "nat \<Rightarrow> fetch_outcome" where
  "busy_then_missing i = Resolves (example_response (if i = 0 then 503 else 404))"

definition busy_then_aborted :: "nat \<Rightarrow> fetch_outcome" where
  "busy_then_aborted i = (if i = 0 then Resolves (example_response 503) else Rejects abort_error)"



definition unreachable_page :: "jsstring \<Rightarrow> fetch_outcome" where
  "unreachable_page u = Rejects abort_error"



text \<open>
  Three search results of which the second is \<open>null\<close>, with an extraction provider
  that cannot be reached: the first and third tasks fall back to the snippet, the second
  rejects.
\<close>

definition first_result :: jsval where
  "first_result =
     JObj [(str ''title'', JStr (str ''A'')), (str ''link'', JStr (str ''https://a.example'')),
           (str ''snippet'', JStr (str ''about a''))]"

definition third_result :: jsval where
  "third_result =
     JObj [(str ''title'', JStr (str ''B'')), (str ''link'', JStr (str ''https://b.example'')),
           (str ''snippet'', JStr (str ''about b''))]"

definition example_settled :: "enriched settled list" where
  "example_settled = snd (fan_out unreachable_page None [first_result, JNull, third_result])"

text \<open>
  A configuration with a search key, a search provider whose only result is \<open>null\<close>,
  and an AI provider that streams: one whose first read outlasts one keep-alive timer,
  one that answers 500.
\<close>

definition example_config :: config where
  "example_config =
     \<lparr>apiKey = Some (str ''ai-key''), baseUrl = Some (str ''https://ai.example/v1''),
      systemPromptEnv = None, serperKey = Some (str ''serper-key''), jinaKey = None,
      modelNameEnv = None\<rparr>"

definition null_result_search :: "jsval \<Rightarrow> fetch_outcome" where
  "null_result_search query =
     Resolves \<lparr>status = 200, body_text = Inr [],
               body_json = Inr (JObj [(str ''organic'', JArr [JNull])]), body_stream = None\<rparr>"

definition no_organic_search :: "jsval \<Rightarrow> fetch_outcome" where
  "no_organic_search query =
     Resolves \<lparr>status = 200, body_text = Inr [],
               body_json = Inr (JObj [(str ''credits'', JNum 1)]), body_stream = None\<rparr>"

definition stalled_upstream :: "(nat \<times> read_result) list" where
  "stalled_upstream = [(1, ReadChunk [100, 97]), (0, ReadChunk [116, 97]), (0, ReadDone)]"

definition streaming_ai :: "nat \<Rightarrow> fetch_outcome" where
  "streaming_ai i =
     Resolves \<lparr>status = 200, body_text = Inr [], body_json = Inr JNull,
               body_stream = Some stalled_upstream\<rparr>"

definition failing_ai :: "nat \<Rightarrow> fetch_outcome" where
  "failing_ai i = Resolves (example_response 500)"

definition example_env :: environment where
  "example_env = \<lparr>search = null_result_search, jina = unreachable_page, ai = streaming_ai\<rparr>"

definition failing_env :: environment where
  "failing_env = \<lparr>search = no_organic_search, jina = unreachable_page, ai = failing_ai\<rparr>"

definition example_request :: "jsval \<Rightarrow> request" where
  "example_request body = \<lparr>req_method = str ''POST'', req_json = Inr body\<rparr>"

text \<open>
  An AI provider whose stream breaks after one chunk, the failing read having outlasted
  two keep-alive timers; a search result whose title is an object with a member
  \<open>toString\<close>; and a search result without a snippet.
\<close>

definition broken_upstream :: "(nat \<times> read_result) list" where
  "broken_upstream =
     [(0, ReadChunk [100, 97]),
      (2, ReadFails (JsError (str ''TypeError'') (str ''terminated'')))]"

definition broken_ai :: "nat \<Rightarrow> fetch_outcome" where
  "broken_ai i =
     Resolves \<lparr>status = 200, body_text = Inr [], body_json = Inr JNull,
               body_stream = Some broken_upstream\<rparr>"

definition broken_env :: environment where
  "broken_env = \<lparr>search = no_organic_search, jina = unreachable_page, ai = broken_ai\<rparr>"

definition odd_result :: jsval where
  "odd_result =
     JObj [(str ''title'', JObj [(str ''toString'', JNum 1)]),
           (str ''link'', JStr (str ''https://d.example'')),
           (str ''snippet'', JStr (str ''about d''))]"

definition bare_result :: jsval where
  "bare_result =
     JObj [(str ''title'', JStr (str ''C'')), (str ''link'', JStr (str ''https://c.example''))]"

section \<open>Properties of fetchWithRetry\<close>

lemma retry_log_same: "retry_log i i = []"
  by (simp add: retry_log_def)

lemma retry_log_Suc:
  "i \<le> j \<Longrightarrow> retry_log i (Suc j) = retry_log i j @ [Fetched j, Slept (1000 * (j + 1))]"
  by (simp add: retry_log_def)

lemma fetchWithRetry_from_retry:
  assumes "retryable (attempt i)" and "i < maxRetries"
  shows "fetchWithRetry_from attempt maxRetries i log =
         fetchWithRetry_from attempt maxRetries (Suc i) (log @ [Fetched i, Slept (1000 * (i + 1))])"
  using assms
  by (subst fetchWithRetry_from.simps) (auto simp: retryable_def split: fetch_outcome.splits)

lemma fetchWithRetry_from_skip:
  assumes "i \<le> j" and "j \<le> maxRetries" and "\<forall>k. i \<le> k \<and> k < j \<longrightarrow> retryable (attempt k)"
  shows "fetchWithRetry_from attempt maxRetries i log =
         fetchWithRetry_from attempt maxRetries j (log @ retry_log i j)"
  using assms
proof (induction j)
  case 0
  then show ?case by (simp add: retry_log_same)
next
  case (Suc j)
  show ?case
  proof (cases "i = Suc j")
    case True
    then show ?thesis by (simp add: retry_log_same)
  next
    case False
    with Suc.prems have le: "i \<le> j" and lt: "j < maxRetries" and r: "retryable (attempt j)"
      by auto
    from Suc.prems have "\<forall>k. i \<le> k \<and> k < j \<longrightarrow> retryable (attempt k)" by auto
    with Suc.IH le lt have "fetchWithRetry_from attempt maxRetries i log =
        fetchWithRetry_from attempt maxRetries j (log @ retry_log i j)" by simp
    also have "\<dots> = fetchWithRetry_from attempt maxRetries (Suc j)
        ((log @ retry_log i j) @ [Fetched j, Slept (1000 * (j + 1))])"
      using r lt by (rule fetchWithRetry_from_retry)
    finally show ?thesis using le by (simp add: retry_log_Suc)
  qed
qed

text \<open>The log only grows, and an iteration within the budget makes its attempt.\<close>

lemma fetchWithRetry_from_log_prefix:
  "prefix log (fst (fetchWithRetry_from attempt maxRetries i log))"
proof (induction attempt maxRetries i log rule: fetchWithRetry_from.induct)
  case (1 attempt maxRetries i log)
  let ?next = "fetchWithRetry_from attempt maxRetries (Suc i)
                 (log @ [Fetched i, Slept (1000 * (i + 1))])"
  show ?case
  proof (cases "i \<le> maxRetries")
    case False
    then show ?thesis by (subst fetchWithRetry_from.simps) simp
  next
    case le: True
    show ?thesis
    proof (cases "attempt i")
      case (Resolves res)
      show ?thesis
      proof (cases "accepted res \<or> i = maxRetries")
        case True
        with le Resolves show ?thesis by (subst fetchWithRetry_from.simps) auto
      next
        case False
        have "prefix (log @ [Fetched i, Slept (1000 * (i + 1))]) (fst ?next)"
          using "1.IH" le Resolves False by auto
        then have "prefix log (fst ?next)"
          using append_prefixD by blast
        with le Resolves False show ?thesis by (subst fetchWithRetry_from.simps) auto
      qed
    next
      case (Rejects e)
      show ?thesis
      proof (cases "err_name e = str ''AbortError'' \<or> i = maxRetries")
        case True
        with le Rejects show ?thesis by (subst fetchWithRetry_from.simps) auto
      next
        case False
        have "prefix (log @ [Fetched i, Slept (1000 * (i + 1))]) (fst ?next)"
          using "1.IH" le Rejects False by auto
        then have "prefix log (fst ?next)"
          using append_prefixD by blast
        with le Rejects False show ?thesis by (subst fetchWithRetry_from.simps) auto
      qed
    qed
  qed
qed

lemma fetchWithRetry_from_attempts:
  assumes "i \<le> maxRetries"
  shows "prefix (log @ [Fetched i]) (fst (fetchWithRetry_from attempt maxRetries i log))"
proof -
  let ?next = "fetchWithRetry_from attempt maxRetries (Suc i)
                 (log @ [Fetched i, Slept (1000 * (i + 1))])"
  have "prefix (log @ [Fetched i, Slept (1000 * (i + 1))]) (fst ?next)"
    by (rule fetchWithRetry_from_log_prefix)
  then have later: "prefix (log @ [Fetched i]) (fst ?next)"
    by (metis append.assoc append_Cons append_Nil append_prefixD)
  show ?thesis
  proof (cases "attempt i")
    case (Resolves res)
    with assms later show ?thesis by (subst fetchWithRetry_from.simps) auto
  next
    case (Rejects e)
    with assms later show ?thesis by (subst fetchWithRetry_from.simps) auto
  qed
qed

lemma fetchWithRetry_skip:
  assumes "j \<le> maxRetries" and "list_all retryable (map attempt [0..<j])"
  shows "fetchWithRetry attempt maxRetries = fetchWithRetry_from attempt maxRetries j (retry_log 0 j)"
proof -
  from assms(2) have "\<forall>k. 0 \<le> k \<and> k < j \<longrightarrow> retryable (attempt k)"
    by (simp add: list_all_iff)
  with assms(1) show ?thesis
    unfolding fetchWithRetry_def
    using fetchWithRetry_from_skip [of 0 j maxRetries attempt "[]"] by simp
qed

text \<open>
  C5, as amended. Let attempt \<open>j\<close> (within the budget, every earlier attempt having been
  retried) resolve to a response. If its status is 2xx, or in [400, 500) and not 429, the
  response is returned on that attempt: the effects end with that fetch, with no delay
  and no attempt after it. Any other status (3xx included, as well as 5xx and 429) is
  retried after the delay of 1000 * (j + 1) ms while an attempt remains, and returned as
  it is on the last attempt.
\<close>

theorem fetchWithRetry_accept_or_retry:
  assumes "j \<le> maxRetries" and "list_all retryable (map attempt [0..<j])"
    and "attempt j = Resolves res"
  shows "((200 \<le> status res \<and> status res \<le> 299)
            \<or> (400 \<le> status res \<and> status res < 500 \<and> status res \<noteq> 429)
          \<longrightarrow> fetchWithRetry attempt maxRetries = (retry_log 0 j @ [Fetched j], Inr (Some res)))
       \<and> (\<not> ((200 \<le> status res \<and> status res \<le> 299)
               \<or> (400 \<le> status res \<and> status res < 500 \<and> status res \<noteq> 429))
          \<longrightarrow> (if j < maxRetries
               then prefix (retry_log 0 j @ [Fetched j, Slept (1000 * (j + 1)), Fetched (Suc j)])
                      (fst (fetchWithRetry attempt maxRetries))
               else fetchWithRetry attempt maxRetries
                      = (retry_log 0 j @ [Fetched j], Inr (Some res))))"
proof -
  have start: "fetchWithRetry attempt maxRetries =
      fetchWithRetry_from attempt maxRetries j (retry_log 0 j)"
    using assms(1,2) by (rule fetchWithRetry_skip)
  have acc: "accepted res \<longleftrightarrow> (200 \<le> status res \<and> status res \<le> 299)
            \<or> (400 \<le> status res \<and> status res < 500 \<and> status res \<noteq> 429)"
    by (simp add: accepted_def response_ok_def)
  show ?thesis
  proof (cases "accepted res")
    case True
    with assms(1,3) have "fetchWithRetry_from attempt maxRetries j (retry_log 0 j) =
        (retry_log 0 j @ [Fetched j], Inr (Some res))"
      by (subst fetchWithRetry_from.simps) simp
    with start have "fetchWithRetry attempt maxRetries
        = (retry_log 0 j @ [Fetched j], Inr (Some res))"
      by simp
    with True acc show ?thesis by auto
  next
    case False
    show ?thesis
    proof (cases "j < maxRetries")
      case True
      with assms(3) False have "fetchWithRetry_from attempt maxRetries j (retry_log 0 j) =
        fetchWithRetry_from attempt maxRetries (Suc j)
          (retry_log 0 j @ [Fetched j, Slept (1000 * (j + 1))])"
        by (intro fetchWithRetry_from_retry) (simp_all add: retryable_def)
      moreover have "prefix
          ((retry_log 0 j @ [Fetched j, Slept (1000 * (j + 1))]) @ [Fetched (Suc j)])
          (fst (fetchWithRetry_from attempt maxRetries (Suc j)
                  (retry_log 0 j @ [Fetched j, Slept (1000 * (j + 1))])))"
        using True by (intro fetchWithRetry_from_attempts) simp
      ultimately have "prefix
          (retry_log 0 j @ [Fetched j, Slept (1000 * (j + 1)), Fetched (Suc j)])
          (fst (fetchWithRetry attempt maxRetries))"
        using start by simp
      with False acc True show ?thesis by auto
    next
      case nlt: False
      with assms(1) have "j = maxRetries" by simp
      with assms(3) False have "fetchWithRetry_from attempt maxRetries j (retry_log 0 j) =
        (retry_log 0 j @ [Fetched j], Inr (Some res))"
        by (subst fetchWithRetry_from.simps) simp
      with start have "fetchWithRetry attempt maxRetries
          = (retry_log 0 j @ [Fetched j], Inr (Some res))"
        by simp
      with False acc nlt show ?thesis by auto
    qed
  qed
qed

text \<open>
  The theorem at work with two retries: a 503 on the first attempt is retried after
  1000 ms, and the 404 of the second attempt is returned at once; a 304 is retried twice
  and returned on the last attempt.
\<close>

theorem fetchWithRetry_accept_or_retry_witness:
  "fetchWithRetry busy_then_missing 2 =
     ([Fetched 0, Slept 1000, Fetched 1], Inr (Some (example_response 404)))
   \<and> prefix [Fetched 0, Slept 1000, Fetched 1] (fst (fetchWithRetry busy_then_missing 2))
   \<and> fetchWithRetry always_304 2 =
     ([Fetched 0, Slept 1000, Fetched 1, Slept 2000, Fetched 2],
      Inr (Some (example_response 304)))"
  using fetchWithRetry_accept_or_retry [of 1 2 busy_then_missing "example_response 404"]
    fetchWithRetry_accept_or_retry [of 0 2 busy_then_missing "example_response 503"]
    fetchWithRetry_accept_or_retry [of 2 2 always_304 "example_response 304"]
  by (simp add: busy_then_missing_def always_304_def example_response_def retryable_def
      accepted_def response_ok_def retry_log_def numeral_2_eq_2)

text \<open>
  C5 as stated fails for a 3xx status: a 304 is not ok, so it is not returned at once
  but retried with both delays, and returned only when the attempts are used up.
\<close>

theorem fetchWithRetry_3xx_counterexample:
  "status (example_response 304) = 304
   \<and> always_304 0 = Resolves (example_response 304)
   \<and> fetchWithRetry always_304 2 =
       ([Fetched 0, Slept 1000, Fetched 1, Slept 2000, Fetched 2],
        Inr (Some (example_response 304)))
   \<and> fst (fetchWithRetry always_304 2) \<noteq> [Fetched 0]"
  by (simp add: fetchWithRetry_def fetchWithRetry_from.simps always_304_def example_response_def
      accepted_def response_ok_def)

text \<open>
  C8. When an attempt within the budget (every earlier attempt having been retried)
  rejects with an AbortError, that error is thrown to the caller: the effects end with
  that fetch, with no delay and no attempt after it, whatever budget remains.
\<close>

theorem fetchWithRetry_abort:
  assumes "j \<le> maxRetries" and "list_all retryable (map attempt [0..<j])"
    and "attempt j = Rejects e" and "err_name e = str ''AbortError''"
  shows "fetchWithRetry attempt maxRetries = (retry_log 0 j @ [Fetched j], Inl e)"
proof -
  have "fetchWithRetry attempt maxRetries =
      fetchWithRetry_from attempt maxRetries j (retry_log 0 j)"
    using assms(1,2) by (rule fetchWithRetry_skip)
  also have "\<dots> = (retry_log 0 j @ [Fetched j], Inl e)"
    using assms(1,3,4) by (subst fetchWithRetry_from.simps) simp
  finally show ?thesis .
qed

theorem fetchWithRetry_abort_witness:
  "fetchWithRetry busy_then_aborted 2 = ([Fetched 0, Slept 1000, Fetched 1], Inl abort_error)"
  using fetchWithRetry_abort [of 1 2 busy_then_aborted abort_error]
  by (simp add: busy_then_aborted_def example_response_def retryable_def accepted_def
      response_ok_def retry_log_def abort_error_def)

section \<open>Properties of fetchJinaContent\<close>



section \<open>Properties of the output stream operations\<close>

lemma sendStatus_fields [simp]:
  "closed (sendStatus m w) = closed w"
  "closings (sendStatus m w) = closings w"
  "calls (sendStatus m w) = calls w"
  "frames (sendStatus m w) = (if closed w then frames w else frames w @ [Status m])"
  by (simp_all add: sendStatus_def enqueue_def)

lemma add_calls_fields [simp]:
  "closed (add_calls cs w) = closed w"
  "closings (add_calls cs w) = closings w"
  "calls (add_calls cs w) = calls w @ cs"
  "frames (add_calls cs w) = frames w"
  by (simp_all add: add_calls_def)

section \<open>Properties of the reference blocks\<close>

text \<open>The definitions that evaluate the fan-out on a concrete input.\<close>

lemmas eval_defs = fan_out_def enrich_def fetchJinaContent_def fetchJinaContent_try_def
  reference_blocks_def reference_block_def js_string_of_def js_slice_def filter_Boolean_def
  block_label_def
  show_nat.simps jina_url_def authorization_def List.map_filter_def nl_def type_error_def

text \<open>
  C1 as stated fails on the numbering. Of three tasks the second rejects: two blocks
  are rendered, and they are numbered 1 and 3, not 1 and 2.
\<close>

theorem reference_blocks_numbering_counterexample:
  "map is_rejected example_settled = [False, True, False]
   \<and> reference_blocks example_settled
     = Inr [str ''[Result #1]'' @ nl @ str ''Title: A'' @ nl @ str ''URL: https://a.example'' @ nl
              @ str ''Snippet: about a'' @ nl @ str ''Full Content (Excerpt): about a'' @ nl,
            str ''[Result #3]'' @ nl @ str ''Title: B'' @ nl @ str ''URL: https://b.example'' @ nl
              @ str ''Snippet: about b'' @ nl @ str ''Full Content (Excerpt): about b'' @ nl]"
  by (simp add: example_settled_def first_result_def third_result_def unreachable_page_def
      abort_error_def eval_defs str_def)

lemma str_nonempty: "str (c # cs) \<noteq> []"
  by (simp add: str_def)

lemma reference_block_label:
  assumes "reference_block index res = Inr block"
  shows "prefix (block_label (index + 1)) block \<and> block \<noteq> []"
  using assms
  by (auto simp: reference_block_def block_label_def str_def split: sum.splits)

lemma printable_take: "list_all printable xs \<Longrightarrow> list_all printable (take n xs)"
  by (auto simp: list_all_iff dest: in_set_takeD)

lemma reference_block_usable:
  assumes "usable (Fulfilled res)"
  shows "\<exists>block. reference_block index res = Inr block"
  using assms
  by (cases "content res")
    (simp_all add: reference_block_def js_string_of_def sliceable_def js_slice_def
      printable_take)

lemma fulfilled_ranks_Nil: "fulfilled_ranks [] = []"
  by (simp add: fulfilled_ranks_def)

lemma fulfilled_ranks_Cons:
  "fulfilled_ranks (p # ps) =
     (if is_rejected p then [] else [0]) @ map Suc (fulfilled_ranks ps)"
proof -
  have "[0..<length (p # ps)] = 0 # map Suc [0..<length ps]"
    by (simp add: upt_conv_Cons map_Suc_upt del: upt_Suc)
  then show ?thesis
    by (simp add: fulfilled_ranks_def filter_map comp_def)
qed

lemma length_fulfilled_ranks:
  "length (fulfilled_ranks ps) = length ps - length (filter is_rejected ps)"
proof (induction ps)
  case Nil
  show ?case by (simp add: fulfilled_ranks_Nil)
next
  case (Cons p ps)
  have "length (filter is_rejected ps) \<le> length ps" by simp
  with Cons show ?case by (simp add: fulfilled_ranks_Cons Suc_diff_le)
qed

lemma filter_Boolean_Cons:
  "filter_Boolean (None # es) = filter_Boolean es"
  "block \<noteq> [] \<Longrightarrow> filter_Boolean (Some block # es) = block # filter_Boolean es"
  by (simp_all add: filter_Boolean_def List.map_filter_def)

lemma reference_entries_ranked:
  assumes "list_all usable ps"
  shows "\<exists>entries. reference_entries index ps = Inr entries
           \<and> list_all2 (\<lambda>rank block. prefix (block_label (rank + index + 1)) block)
                (fulfilled_ranks ps) (filter_Boolean entries)"
  using assms
proof (induction ps arbitrary: index)
  case Nil
  show ?case by (simp add: fulfilled_ranks_Nil filter_Boolean_def List.map_filter_def)
next
  case (Cons p ps)
  from Cons.prems have rest: "list_all usable ps" by simp
  from Cons.IH [OF rest, of "Suc index"] obtain entries where
    entries: "reference_entries (Suc index) ps = Inr entries"
    and ranked: "list_all2 (\<lambda>rank block. prefix (block_label (rank + Suc index + 1)) block)
                   (fulfilled_ranks ps) (filter_Boolean entries)"
    by blast
  from ranked have shifted:
    "list_all2 (\<lambda>rank block. prefix (block_label (rank + index + 1)) block)
       (map Suc (fulfilled_ranks ps)) (filter_Boolean entries)"
    by (simp add: list_all2_map1)
  show ?case
  proof (cases p)
    case (Rejected e)
    with entries shifted show ?thesis
      by (simp add: fulfilled_ranks_Cons filter_Boolean_Cons)
  next
    case (Fulfilled res)
    with Cons.prems have "usable (Fulfilled res)" by simp
    then obtain block where block: "reference_block index res = Inr block"
      using reference_block_usable by blast
    then have label: "prefix (block_label (index + 1)) block" and ne: "block \<noteq> []"
      using reference_block_label by blast+
    from Fulfilled entries block shifted label ne show ?thesis
      by (simp add: fulfilled_ranks_Cons filter_Boolean_Cons)
  qed
qed

lemma reference_entries_all_rejected:
  assumes "list_all is_rejected ps"
  shows "\<exists>entries. reference_entries index ps = Inr entries \<and> filter_Boolean entries = []"
  using assms
proof (induction ps arbitrary: index)
  case Nil
  show ?case by (simp add: filter_Boolean_def List.map_filter_def)
next
  case (Cons p ps)
  then obtain e where p: "p = Rejected e" by (cases p) auto
  from Cons.prems have "list_all is_rejected ps" by simp
  from Cons.IH [OF this, of "Suc index"] p show ?case
    by (auto simp: filter_Boolean_Cons)
qed

lemma reference_blocks_all_rejected:
  assumes "list_all is_rejected ps"
  shows "reference_blocks ps = Inr []"
  using reference_entries_all_rejected [OF assms, of 0]
  by (auto simp: reference_blocks_def)

text \<open>
  C1, as amended. When every fulfilled entry has a content that can be sliced (a string,
  as the data model has it, or an array) and a title, link, snippet and content that
  convert to strings (as strings do), the map of lines 184 to 190 does not throw and
  yields exactly N - K blocks for N entries of which K were rejected, in the rank order of
  the fulfilled entries, each labelled with the rank of its own entry counted from 1;
  the labels are 1..(N - K) only when no rejected entry precedes a fulfilled one. When
  every entry was rejected there is no block and still no throw.
\<close>

theorem reference_blocks_ranked:
  "(list_all usable fetchedResults \<longrightarrow>
      (\<exists>blocks. reference_blocks fetchedResults = Inr blocks
         \<and> length blocks = length fetchedResults - length (filter is_rejected fetchedResults)
         \<and> list_all2 (\<lambda>rank block. prefix (block_label (rank + 1)) block)
              (fulfilled_ranks fetchedResults) blocks))
   \<and> (list_all is_rejected fetchedResults \<longrightarrow> reference_blocks fetchedResults = Inr [])"
proof (intro conjI impI)
  assume "list_all usable fetchedResults"
  from reference_entries_ranked [OF this, of 0] obtain entries where
    entries: "reference_entries 0 fetchedResults = Inr entries"
    and ranked: "list_all2 (\<lambda>rank block. prefix (block_label (rank + 1)) block)
                   (fulfilled_ranks fetchedResults) (filter_Boolean entries)"
    by auto
  from ranked have "length (filter_Boolean entries) = length (fulfilled_ranks fetchedResults)"
    by (simp add: list_all2_lengthD)
  with entries ranked show "\<exists>blocks. reference_blocks fetchedResults = Inr blocks
         \<and> length blocks = length fetchedResults - length (filter is_rejected fetchedResults)
         \<and> list_all2 (\<lambda>rank block. prefix (block_label (rank + 1)) block)
              (fulfilled_ranks fetchedResults) blocks"
    by (simp add: reference_blocks_def length_fulfilled_ranks)
next
  assume "list_all is_rejected fetchedResults"
  then show "reference_blocks fetchedResults = Inr []"
    by (rule reference_blocks_all_rejected)
qed

theorem reference_blocks_ranked_witness:
  "fulfilled_ranks example_settled = [0, 2]
   \<and> (\<exists>blocks. reference_blocks example_settled = Inr blocks \<and> length blocks = 2
        \<and> list_all2 (\<lambda>rank block. prefix (block_label (rank + 1)) block) [0, 2] blocks)
   \<and> reference_blocks [Rejected abort_error, Rejected abort_error] = Inr []"
proof -
  have ex: "example_settled =
      [Fulfilled \<lparr>title = JStr (str ''A''), link = JStr (str ''https://a.example''),
                 snippet = JStr (str ''about a''), content = JStr (str ''about a'')\<rparr>,
       Rejected (type_error ''Cannot read properties of null''),
       Fulfilled \<lparr>title = JStr (str ''B''), link = JStr (str ''https://b.example''),
                 snippet = JStr (str ''about b''), content = JStr (str ''about b'')\<rparr>]"
    by (simp add: example_settled_def first_result_def third_result_def unreachable_page_def
      abort_error_def eval_defs str_def)
  have ranks: "fulfilled_ranks example_settled = [0, 2]"
    by (simp add: ex fulfilled_ranks_Cons fulfilled_ranks_Nil)
  have usable: "list_all usable example_settled"
    by (simp add: ex sliceable_def)
  have len: "length example_settled - length (filter is_rejected example_settled) = 2"
    by (simp add: ex)
  show ?thesis
    using reference_blocks_ranked [of example_settled]
      reference_blocks_ranked [of "[Rejected abort_error, Rejected abort_error]"]
      ranks usable len
    by simp
qed

text \<open>
  A fulfilled entry that is not usable is outside the theorem, because rendering its
  block throws: a result without a snippet whose extraction failed has the content
  \<open>undefined\<close>, which cannot be sliced; a result whose title is an object with a
  member \<open>toString\<close> cannot be converted to a string.
\<close>

lemma reference_blocks_without_snippet:
  "reference_blocks (snd (fan_out unreachable_page None [bare_result]))
     = Inl (type_error ''Cannot read properties of undefined'')"
  by (simp add: eval_defs bare_result_def unreachable_page_def abort_error_def str_def)

lemma reference_blocks_with_toString_title:
  "reference_blocks (snd (fan_out unreachable_page None [odd_result]))
     = Inl (type_error ''Cannot convert object to primitive value'')"
  by (simp add: eval_defs odd_result_def unreachable_page_def abort_error_def str_def)

section \<open>Properties of the search stage and the search context\<close>

text \<open>The definitions that evaluate the handler on a concrete input.\<close>

lemmas stream_defs = stream_start_def start_try_def prepare_context_def js_string_of_def
  search_stage_def
  context_stage_def ai_stage_def fetchSerperSearch_def fetchSerperSearch_try_def
  fetchWithRetry_def fetchWithRetry_from.simps accepted_def response_ok_def env_set_def
  has_results_def results_length_def js_gt_zero_def top_results_def references_of_def
  js_or_def build_request_def env_or_def close_quietly_def close_def enqueue_def
  sendStatus_def add_calls_def initial_world_def show_int_def

text \<open>
  C10. Let the search provider answer with an ok response whose parsed body has no
  \<open>organic\<close> member (the property read yields \<open>undefined\<close>). Then
  \<open>fetchSerperSearch\<close> returns the empty array, not \<open>null\<close>, and the handler does
  with it exactly what it does with \<open>null\<close>: the no-real-time-data frame and the
  fallback context.
\<close>

theorem fetchSerperSearch_without_organic:
  assumes "js_truthy query" and "env_set key" and "provider query = Resolves res"
    and "response_ok res" and "body_json res = Inr data"
    and "get_prop data (str ''organic'') = Inr JUndefined"
  shows "snd (fetchSerperSearch provider query key) = Inr (JArr [])
         \<and> context_stage cfg env (JArr []) w = context_stage cfg env JNull w
         \<and> context_stage cfg env (JArr []) w = (sendStatus NoRealtimeData w, Inr fallback_context)"
  using assms
  by (simp add: fetchSerperSearch_def fetchSerperSearch_try_def js_or_def context_stage_def
      has_results_def results_length_def js_gt_zero_def)

theorem fetchSerperSearch_without_organic_witness:
  "snd (fetchSerperSearch no_organic_search (JStr (str ''shoes'')) (Some (str ''serper-key'')))
     = Inr (JArr [])
   \<and> context_stage example_config failing_env (JArr []) initial_world
     = context_stage example_config failing_env JNull initial_world"
  using fetchSerperSearch_without_organic [of "JStr (str ''shoes'')" "Some (str ''serper-key'')"
      no_organic_search
      "\<lparr>status = 200, body_text = Inr [], body_json = Inr (JObj [(str ''credits'', JNum 1)]),
        body_stream = None\<rparr>"
      "JObj [(str ''credits'', JNum 1)]" example_config failing_env initial_world]
  by (simp add: no_organic_search_def response_ok_def env_set_def str_def)

lemma references_of_all_rejected:
  assumes "list_all is_rejected ps"
  shows "references_of ps = Inr []"
  using reference_blocks_all_rejected [OF assms] by (simp add: references_of_def)

text \<open>
  C4, as amended. When no search result was obtained (\<open>searchResults\<close> is \<open>null\<close> or
  the empty array, the latter also being its value when no search key is configured),
  the search context is the fallback sentence. When results were obtained and every
  extraction task rejects, the search context is the header sentence followed by no
  reference, which is not the fallback sentence.
\<close>

theorem search_context_fallback:
  "(searchResults = JNull \<or> searchResults = JArr [] \<longrightarrow>
      snd (context_stage cfg env searchResults w) = Inr fallback_context)
   \<and> (\<not> env_set (serperKey cfg) \<longrightarrow> snd (search_stage cfg env keyword w) = Inr (JArr []))
   \<and> (results \<noteq> []
        \<and> list_all is_rejected (snd (fan_out (jina env) (jinaKey cfg) (take 8 results))) \<longrightarrow>
      snd (context_stage cfg env (JArr results) w) = Inr context_header)
   \<and> context_header \<noteq> fallback_context"
proof (intro conjI impI)
  assume "searchResults = JNull \<or> searchResults = JArr []"
  then show "snd (context_stage cfg env searchResults w) = Inr fallback_context"
    by (auto simp: context_stage_def has_results_def results_length_def js_gt_zero_def)
next
  assume "\<not> env_set (serperKey cfg)"
  then show "snd (search_stage cfg env keyword w) = Inr (JArr [])"
    by (simp add: search_stage_def Let_def)
next
  assume a: "results \<noteq> []
    \<and> list_all is_rejected (snd (fan_out (jina env) (jinaKey cfg) (take 8 results)))"
  obtain cs fetchedResults where
    fan: "fan_out (jina env) (jinaKey cfg) (take 8 results) = (cs, fetchedResults)"
    by (cases "fan_out (jina env) (jinaKey cfg) (take 8 results)")
  with a have "references_of fetchedResults = Inr []"
    by (simp add: references_of_all_rejected)
  moreover from a have "has_results (JArr results)"
    by (simp add: has_results_def results_length_def js_gt_zero_def)
  ultimately show "snd (context_stage cfg env (JArr results) w) = Inr context_header"
    by (simp add: context_stage_def top_results_def Let_def fan)
next
  show "context_header \<noteq> fallback_context"
    by (simp add: context_header_def fallback_context_def)
qed

theorem search_context_fallback_witness:
  "snd (context_stage example_config example_env JNull initial_world) = Inr fallback_context
   \<and> snd (context_stage example_config example_env (JArr []) initial_world) = Inr fallback_context
   \<and> snd (search_stage (example_config\<lparr>serperKey := None\<rparr>) example_env
            (JStr (str ''shoes'')) initial_world) = Inr (JArr [])
   \<and> snd (context_stage example_config example_env (JArr [JNull]) initial_world)
       = Inr context_header"
proof -
  have "list_all is_rejected
      (snd (fan_out (jina example_env) (jinaKey example_config) (take 8 [JNull])))"
    by (simp add: fan_out_def enrich_def)
  then show ?thesis
    using search_context_fallback [of JNull example_config example_env initial_world JNull "[JNull]"]
      search_context_fallback [of "JArr []" example_config example_env initial_world JNull "[JNull]"]
      search_context_fallback [of JNull "example_config\<lparr>serperKey := None\<rparr>" example_env
        initial_world "JStr (str ''shoes'')" "[]"]
    by (simp add: env_set_def)
qed

text \<open>
  C4 as stated fails when every task is dropped. The only search result is \<open>null\<close>,
  so the only task rejects; the request sent to the AI provider carries the header
  sentence as its context, not the fallback sentence.
\<close>

theorem dropped_results_context_counterexample:
  "map is_rejected (snd (fan_out unreachable_page None [JNull])) = [True]
   \<and> stream_start example_config example_env (JStr (str ''shoes'')) =
      Finished
        \<lparr>frames = [Status (Searching (str ''shoes'')), Status (Captured (str ''1'')),
                   Status CollectionDone, KeepAlive, Relayed [100, 97], Relayed [116, 97]],
         closed = True, closings = 1,
         calls = [SearchCall (JStr (str ''shoes'')),
                  AICall \<lparr>endpoint = str ''https://ai.example/v1/chat/completions'',
                          model = default_model, system_message = default_system_prompt,
                          user_keyword = str ''shoes'', user_context = context_header\<rparr>]\<rparr>
   \<and> context_header \<noteq> fallback_context"
  by (simp add: stream_defs eval_defs example_config_def example_env_def null_result_search_def
      unreachable_page_def abort_error_def streaming_ai_def stalled_upstream_def
      context_header_def fallback_context_def str_def)

section \<open>Properties of the relay loop\<close>

lemma enqueue_open:
  "\<not> closed w \<Longrightarrow> enqueue f w = Inr (w\<lparr>frames := frames w @ [f]\<rparr>)"
  by (simp add: enqueue_def)

lemma relay_loop_frames:
  assumes "\<not> closed w"
  shows "frames (fst (relay_loop reads w)) = frames w @ relay_frames reads
         \<and> closed (fst (relay_loop reads w)) = closed w
         \<and> closings (fst (relay_loop reads w)) = closings w
         \<and> calls (fst (relay_loop reads w)) = calls w"
  using assms
proof (induction reads w rule: relay_loop.induct)
  case (1 w)
  show ?case by simp
next
  case (2 k r reads w)
  from "2.prems" have step: "enqueue KeepAlive w = Inr (w\<lparr>frames := frames w @ [KeepAlive]\<rparr>)"
    by (rule enqueue_open)
  from "2.IH" [OF step] "2.prems"
  have ih: "frames (fst (relay_loop ((k, r) # reads) (w\<lparr>frames := frames w @ [KeepAlive]\<rparr>)))
      = (frames w @ [KeepAlive]) @ relay_frames ((k, r) # reads)
    \<and> closed (fst (relay_loop ((k, r) # reads) (w\<lparr>frames := frames w @ [KeepAlive]\<rparr>))) = closed w
    \<and> closings (fst (relay_loop ((k, r) # reads) (w\<lparr>frames := frames w @ [KeepAlive]\<rparr>))) = closings w
    \<and> calls (fst (relay_loop ((k, r) # reads) (w\<lparr>frames := frames w @ [KeepAlive]\<rparr>))) = calls w"
    by simp
  show ?case
    using ih step by (cases r) simp_all
next
  case (3 v reads w)
  from "3.prems" have step: "enqueue (Relayed v) w = Inr (w\<lparr>frames := frames w @ [Relayed v]\<rparr>)"
    by (rule enqueue_open)
  from "3.IH" [OF step] "3.prems" step show ?case by simp
next
  case (4 reads w)
  show ?case by simp
next
  case (5 e reads w)
  then show ?case by (simp add: enqueue_def)
qed

lemma relayed_append: "relayed (fs @ gs) = relayed fs @ relayed gs"
  by (induction fs rule: relayed.induct) simp_all

lemma relayed_keep_alive: "relayed (replicate k KeepAlive) = []"
  by (induction k) simp_all

lemma relayed_relay_frames: "relayed (relay_frames reads) = delivered reads"
  by (induction reads rule: relay_frames.induct) (simp_all add: relayed_append relayed_keep_alive)

lemma relay_loop_stalls:
  assumes "\<not> closed w"
  shows "relay_loop ((k, ReadChunk v) # reads) w
           = relay_loop reads (w\<lparr>frames := frames w @ replicate k KeepAlive @ [Relayed v]\<rparr>)"
  using assms
proof (induction k arbitrary: w)
  case 0
  then show ?case by (simp add: enqueue_def)
next
  case (Suc k)
  from Suc.prems have "relay_loop ((Suc k, ReadChunk v) # reads) w
      = relay_loop ((k, ReadChunk v) # reads) (w\<lparr>frames := frames w @ [KeepAlive]\<rparr>)"
    by (simp add: enqueue_def)
  also have "\<dots> = relay_loop reads
      (w\<lparr>frames := frames w @ [KeepAlive]\<rparr>
        \<lparr>frames := frames (w\<lparr>frames := frames w @ [KeepAlive]\<rparr>) @ replicate k KeepAlive @ [Relayed v]\<rparr>)"
    using Suc.prems by (intro Suc.IH) simp
  finally show ?case by simp
qed

text \<open>
  C2. On an open stream, a read that outlasts one keep-alive timer (as a read that
  settles 16 seconds after it was issued does) puts exactly one keep-alive frame before
  its chunk, and the loop goes on with the reads that follow: the pending read was kept
  and its chunk consumed. In general a read puts one keep-alive frame before its chunk
  for each timer it outlasts; for every upstream the frames added are those of
  \<open>relay_frames\<close>, and the chunks relayed are the chunks delivered, each once and in
  order.
\<close>

theorem relay_loop_stall:
  assumes "\<not> closed w"
  shows "relay_loop ((1, ReadChunk v) # reads) w
           = relay_loop reads (w\<lparr>frames := frames w @ [KeepAlive, Relayed v]\<rparr>)
         \<and> relay_loop ((k, ReadChunk v) # reads) w
           = relay_loop reads (w\<lparr>frames := frames w @ replicate k KeepAlive @ [Relayed v]\<rparr>)
         \<and> frames (fst (relay_loop upstream w)) = frames w @ relay_frames upstream
         \<and> relayed (frames (fst (relay_loop upstream w))) = relayed (frames w) @ delivered upstream"
proof -
  have "relay_loop ((1, ReadChunk v) # reads) w
          = relay_loop reads (w\<lparr>frames := frames w @ [KeepAlive, Relayed v]\<rparr>)"
    using relay_loop_stalls [OF assms, of 1 v reads] by simp
  moreover have "frames (fst (relay_loop upstream w)) = frames w @ relay_frames upstream"
    using relay_loop_frames [OF assms] by simp
  ultimately show ?thesis
    using relay_loop_stalls [OF assms, of k v reads]
    by (simp add: relayed_append relayed_relay_frames)
qed

theorem relay_loop_stall_witness:
  "relay_loop stalled_upstream initial_world =
     (\<lparr>frames = [KeepAlive, Relayed [100, 97], Relayed [116, 97]], closed = False, closings = 0,
       calls = []\<rparr>, Completed)
   \<and> relayed (frames (fst (relay_loop stalled_upstream initial_world))) = delivered stalled_upstream
   \<and> delivered stalled_upstream = [100, 97] # [116, 97] # []"
  using relay_loop_stall [of initial_world "[100, 97]" "[(0, ReadChunk [116, 97]), (0, ReadDone)]"
      1 stalled_upstream]
  by (simp add: stalled_upstream_def initial_world_def enqueue_def)

section \<open>Properties of the handler's stream\<close>

lemma consistent_sendStatus [simp]: "consistent (sendStatus m w) = consistent w"
  by (simp add: consistent_def)

lemma consistent_add_calls [simp]: "consistent (add_calls cs w) = consistent w"
  by (simp add: consistent_def)

lemma consistent_enqueue: "enqueue f w = Inr w' \<Longrightarrow> consistent w' = consistent w"
  by (auto simp: enqueue_def consistent_def split: if_splits)

lemma consistent_close: "close w = Inr w' \<Longrightarrow> consistent w' = consistent w"
  by (auto simp: close_def consistent_def split: if_splits)

lemma close_quietly_closed:
  assumes "consistent w"
  shows "closed (close_quietly w) \<and> closings (close_quietly w) = 1"
  using assms by (auto simp: close_quietly_def close_def consistent_def)

lemma relay_loop_consistent:
  "consistent w \<Longrightarrow> consistent (fst (relay_loop reads w))"
proof (induction reads w rule: relay_loop.induct)
  case (2 k r reads w)
  then show ?case
    by (cases "enqueue KeepAlive w") (simp_all add: consistent_enqueue)
next
  case (3 v reads w)
  then show ?case
    by (cases "enqueue (Relayed v) w") (simp_all add: consistent_enqueue)
next
  case (5 e reads w)
  then show ?case
    by (cases "enqueue KeepAlive w") (simp_all add: consistent_enqueue)
qed simp_all

lemma relay_loop_ends:
  "timer_message_free reads \<Longrightarrow> snd (relay_loop reads w) \<noteq> Livelock"
proof (induction reads w rule: relay_loop.induct)
  case (2 k r reads w)
  then show ?case
    by (cases "enqueue KeepAlive w") (simp_all add: timer_message_free_def)
next
  case (3 v reads w)
  then show ?case
    by (cases "enqueue (Relayed v) w") (simp_all add: timer_message_free_def)
next
  case (5 e reads w)
  then show ?case by (simp add: timer_message_free_def)
qed simp_all

lemma fetchWithRetry_from_origin:
  "fetchWithRetry_from attempt maxRetries i log = (log', Inr (Some res))
     \<Longrightarrow> \<exists>k\<le>maxRetries. attempt k = Resolves res"
proof (induction attempt maxRetries i log rule: fetchWithRetry_from.induct)
  case (1 attempt maxRetries i log)
  show ?case
  proof (cases "i \<le> maxRetries")
    case False
    with "1.prems" show ?thesis by (subst (asm) fetchWithRetry_from.simps) simp
  next
    case le: True
    show ?thesis
    proof (cases "attempt i")
      case (Resolves r)
      show ?thesis
      proof (cases "accepted r \<or> i = maxRetries")
        case True
        with "1.prems" le Resolves have "r = res"
          by (subst (asm) fetchWithRetry_from.simps) (auto split: if_splits)
        with le Resolves show ?thesis by auto
      next
        case False
        with "1.prems" le Resolves have "fetchWithRetry_from attempt maxRetries (Suc i)
            (log @ [Fetched i, Slept (1000 * (i + 1))]) = (log', Inr (Some res))"
          by (subst (asm) fetchWithRetry_from.simps) auto
        with "1.IH"(2) le Resolves False show ?thesis by auto
      qed
    next
      case (Rejects e)
      show ?thesis
      proof (cases "err_name e = str ''AbortError'' \<or> i = maxRetries")
        case True
        with "1.prems" le Rejects show ?thesis
          by (subst (asm) fetchWithRetry_from.simps) (auto split: if_splits)
      next
        case False
        with "1.prems" le Rejects have "fetchWithRetry_from attempt maxRetries (Suc i)
            (log @ [Fetched i, Slept (1000 * (i + 1))]) = (log', Inr (Some res))"
          by (subst (asm) fetchWithRetry_from.simps) auto
        with "1.IH"(1) le Rejects False show ?thesis by auto
      qed
    qed
  qed
qed

lemma plain_upstream_reads:
  assumes "plain_upstream provider" and "fetchWithRetry provider 2 = (log, Inr (Some res))"
    and "body_stream res = Some reads"
  shows "timer_message_free reads"
proof -
  from assms(2) obtain k where k: "k \<le> 2" and res: "provider k = Resolves res"
    unfolding fetchWithRetry_def using fetchWithRetry_from_origin by blast
  from k have "k \<in> set [0..<3]" by simp
  with assms(1) have "case provider k of
      Rejects e \<Rightarrow> True
    | Resolves res \<Rightarrow> (case body_stream res of None \<Rightarrow> True
                       | Some reads \<Rightarrow> timer_message_free reads)"
    unfolding plain_upstream_def list_all_iff by blast
  with res assms(3) show ?thesis by simp
qed

lemma ai_stage_consistent:
  assumes "consistent w"
  shows "consistent (fst (ai_stage provider request w))"
  using assms
  by (auto simp: ai_stage_def Let_def relay_loop_consistent consistent_close
      split: prod.splits sum.splits option.splits)

lemma ai_stage_ends:
  assumes "plain_upstream provider"
  shows "snd (ai_stage provider request w) \<noteq> Livelock"
  using assms
  by (auto simp: ai_stage_def Let_def relay_loop_ends plain_upstream_reads
      split: prod.splits sum.splits option.splits)

lemma search_stage_world:
  "closed (fst (search_stage cfg env keyword w)) = closed w
   \<and> closings (fst (search_stage cfg env keyword w)) = closings w
   \<and> filter is_error_frame (frames (fst (search_stage cfg env keyword w)))
       = filter is_error_frame (frames w)"
  by (auto simp: search_stage_def Let_def split: prod.splits sum.splits)

lemma context_stage_world:
  "closed (fst (context_stage cfg env searchResults w)) = closed w
   \<and> closings (fst (context_stage cfg env searchResults w)) = closings w
   \<and> filter is_error_frame (frames (fst (context_stage cfg env searchResults w)))
       = filter is_error_frame (frames w)"
  by (auto simp: context_stage_def Let_def split: prod.splits sum.splits)

lemma prepare_context_world:
  "closed (fst (prepare_context cfg env keyword w)) = closed w
   \<and> closings (fst (prepare_context cfg env keyword w)) = closings w
   \<and> filter is_error_frame (frames (fst (prepare_context cfg env keyword w)))
       = filter is_error_frame (frames w)"
proof (cases "js_string_of keyword")
  case (Inl e)
  then show ?thesis by (simp add: prepare_context_def)
next
  case (Inr keyword_text)
  let ?w0 = "sendStatus (Searching keyword_text) w"
  obtain w1 r where s: "search_stage cfg env keyword ?w0 = (w1, r)"
    by (cases "search_stage cfg env keyword ?w0")
  have banner: "closed ?w0 = closed w \<and> closings ?w0 = closings w
      \<and> filter is_error_frame (frames ?w0) = filter is_error_frame (frames w)"
    by simp
  from search_stage_world [of cfg env keyword ?w0] context_stage_world [of cfg env _ w1]
    Inr s banner
  show ?thesis
    by (cases r) (simp_all add: prepare_context_def)
qed

lemma prepare_context_consistent:
  "consistent (fst (prepare_context cfg env keyword w)) = consistent w"
  using prepare_context_world [of cfg env keyword w] by (simp add: consistent_def)

lemma start_try_consistent:
  assumes "consistent w"
  shows "consistent (fst (start_try cfg env keyword w))"
proof (cases "js_truthy keyword")
  case False
  with assms show ?thesis
    by (auto simp: start_try_def Let_def consistent_close split: sum.splits)
next
  case True
  obtain w2 r where p: "prepare_context cfg env keyword w = (w2, r)"
    by (cases "prepare_context cfg env keyword w")
  with prepare_context_consistent [of cfg env keyword w] assms have "consistent w2" by simp
  with True p show ?thesis
    by (cases r) (simp_all add: start_try_def ai_stage_consistent)
qed

lemma start_try_ends:
  assumes "plain_upstream (ai env)"
  shows "snd (start_try cfg env keyword w) \<noteq> Livelock"
  using assms
  by (auto simp: start_try_def Let_def ai_stage_ends split: prod.splits sum.splits)

text \<open>
  C3. Whatever the configuration, the keyword and the providers' answers (missing
  keyword, failed handshake, end of the upstream, an error on the way), the run finishes
  with the stream closed, and the stream went from open to closed exactly once. The
  early returns close the stream themselves; the close of the \<open>finally\<close> block then
  fails and is swallowed. The upstream's rejections are taken not to carry the message
  of the keep-alive timer.
\<close>

theorem stream_closed_once:
  assumes "plain_upstream (ai env)"
  shows "\<exists>w. stream_start cfg env keyword = Finished w \<and> closed w \<and> closings w = 1"
proof -
  obtain w ex where run: "start_try cfg env keyword initial_world = (w, ex)"
    by (cases "start_try cfg env keyword initial_world")
  have "consistent initial_world" by (simp add: consistent_def initial_world_def)
  from start_try_consistent [OF this, of cfg env keyword] run have w: "consistent w" by simp
  from start_try_ends [OF assms, of cfg keyword initial_world] run have ex: "ex \<noteq> Livelock" by simp
  show ?thesis
  proof (cases ex)
    case Completed
    with run close_quietly_closed [OF w] show ?thesis by (simp add: stream_start_def)
  next
    case (Thrown e)
    from w have "consistent (sendStatus (SystemError (err_message e)) w)" by simp
    from close_quietly_closed [OF this] run Thrown show ?thesis by (simp add: stream_start_def)
  next
    case Livelock
    with ex show ?thesis by simp
  qed
qed

theorem stream_closed_once_witness:
  "(\<exists>w. stream_start example_config example_env JUndefined = Finished w
        \<and> closed w \<and> closings w = 1)
   \<and> (\<exists>w. stream_start example_config failing_env (JStr (str ''shoes'')) = Finished w
        \<and> closed w \<and> closings w = 1)
   \<and> (\<exists>w. stream_start example_config example_env (JStr (str ''shoes'')) = Finished w
        \<and> closed w \<and> closings w = 1)
   \<and> (\<exists>w. stream_start example_config broken_env (JStr (str ''shoes'')) = Finished w
        \<and> closed w \<and> closings w = 1)"
proof -
  have "plain_upstream (ai example_env)"
    by (simp add: plain_upstream_def example_env_def streaming_ai_def stalled_upstream_def
        timer_message_free_def list_all_iff)
  moreover have "plain_upstream (ai failing_env)"
    by (simp add: plain_upstream_def failing_env_def failing_ai_def example_response_def
        timer_message_free_def list_all_iff)
  moreover have "plain_upstream (ai broken_env)"
    by (simp add: plain_upstream_def broken_env_def broken_ai_def broken_upstream_def
        timer_message_free_def list_all_iff str_def)
  ultimately show ?thesis
    using stream_closed_once [of example_env example_config JUndefined]
      stream_closed_once [of failing_env example_config "JStr (str ''shoes'')"]
      stream_closed_once [of example_env example_config "JStr (str ''shoes'')"]
      stream_closed_once [of broken_env example_config "JStr (str ''shoes'')"]
    by simp
qed

lemma fetchWithRetry_from_fetches:
  "length (filter is_fetch (fst (fetchWithRetry_from attempt maxRetries i log)))
     \<le> length (filter is_fetch log) + (Suc maxRetries - i)"
proof (induction attempt maxRetries i log rule: fetchWithRetry_from.induct)
  case (1 attempt maxRetries i log)
  let ?next = "fetchWithRetry_from attempt maxRetries (Suc i)
                 (log @ [Fetched i, Slept (1000 * (i + 1))])"
  show ?case
  proof (cases "i \<le> maxRetries")
    case False
    then show ?thesis by (subst fetchWithRetry_from.simps) simp
  next
    case le: True
    show ?thesis
    proof (cases "attempt i")
      case (Resolves res)
      show ?thesis
      proof (cases "accepted res \<or> i = maxRetries")
        case True
        with le Resolves show ?thesis by (subst fetchWithRetry_from.simps) auto
      next
        case False
        have "length (filter is_fetch (fst ?next))
            \<le> length (filter is_fetch (log @ [Fetched i, Slept (1000 * (i + 1))]))
                + (Suc maxRetries - Suc i)"
          using "1.IH" le Resolves False by auto
        with le Resolves False show ?thesis by (subst fetchWithRetry_from.simps) auto
      qed
    next
      case (Rejects e)
      show ?thesis
      proof (cases "err_name e = str ''AbortError'' \<or> i = maxRetries")
        case True
        with le Rejects show ?thesis by (subst fetchWithRetry_from.simps) auto
      next
        case False
        have "length (filter is_fetch (fst ?next))
            \<le> length (filter is_fetch (log @ [Fetched i, Slept (1000 * (i + 1))]))
                + (Suc maxRetries - Suc i)"
          using "1.IH" le Rejects False by auto
        with le Rejects False show ?thesis by (subst fetchWithRetry_from.simps) auto
      qed
    qed
  qed
qed

text \<open>
  C6. When \<open>fetchWithRetry\<close> returns a response that is not ok and whose text can be
  read, the run finishes with one frame more than the stages before had enqueued: the AI
  error frame, whose text holds the status code in decimal and the body text. It is the
  only error frame of the run, the stream is closed, and the AI provider was called once
  for each attempt of \<open>fetchWithRetry\<close> (at most three) and not again.
\<close>

theorem handshake_failure_frame:
  assumes "js_truthy keyword"
    and "prepare_context cfg env keyword initial_world = (w, Inr searchContext)"
    and "fetchWithRetry (ai env) 2 = (log, Inr (Some upstreamResponse))"
    and "\<not> response_ok upstreamResponse"
    and "body_text upstreamResponse = Inr errText"
  shows "stream_start cfg env keyword =
           Finished (w\<lparr>frames := frames w @ [Status (AIError (status upstreamResponse) errText)],
                       closed := True, closings := 1,
                       calls := calls w @ map (\<lambda>ev. AICall (build_request cfg keyword searchContext))
                                            (filter is_fetch log)\<rparr>)
         \<and> status_text (AIError (status upstreamResponse) errText)
             = [10, 10, 10060] @ str '' **AI Error**: '' @ show_nat (status upstreamResponse)
               @ [10] @ errText
         \<and> filter is_error_frame (frames w) = []
         \<and> length (filter is_fetch log) \<le> 3"
proof -
  from prepare_context_world [of cfg env keyword initial_world] assms(2)
  have opened: "\<not> closed w" and none: "closings w = 0"
    and clean: "filter is_error_frame (frames w) = []"
    by (simp_all add: initial_world_def)
  from fetchWithRetry_from_fetches [of "ai env" 2 0 "[]"] assms(3)
  have few: "length (filter is_fetch log) \<le> 3"
    by (simp add: fetchWithRetry_def)
  have "stream_start cfg env keyword =
           Finished (w\<lparr>frames := frames w @ [Status (AIError (status upstreamResponse) errText)],
                       closed := True, closings := 1,
                       calls := calls w @ map (\<lambda>ev. AICall (build_request cfg keyword searchContext))
                                            (filter is_fetch log)\<rparr>)"
    using assms opened none
    by (simp add: stream_start_def start_try_def ai_stage_def Let_def sendStatus_def enqueue_def
        close_def close_quietly_def add_calls_def)
  with clean few show ?thesis by simp
qed

theorem handshake_failure_frame_witness:
  "stream_start example_config failing_env (JStr (str ''shoes'')) =
     Finished
       \<lparr>frames = [Status (Searching (str ''shoes'')), Status NoRealtimeData,
                  Status (AIError 500 (str ''internal error''))],
        closed = True, closings = 1,
        calls = [SearchCall (JStr (str ''shoes'')),
                 AICall (build_request example_config (JStr (str ''shoes'')) fallback_context),
                 AICall (build_request example_config (JStr (str ''shoes'')) fallback_context),
                 AICall (build_request example_config (JStr (str ''shoes'')) fallback_context)]\<rparr>
   \<and> status_text (AIError 500 (str ''internal error''))
       = [10, 10, 10060] @ str '' **AI Error**: 500'' @ [10] @ str ''internal error''"
proof -
  have prep: "prepare_context example_config failing_env (JStr (str ''shoes'')) initial_world =
      (\<lparr>frames = [Status (Searching (str ''shoes'')), Status NoRealtimeData], closed = False,
        closings = 0, calls = [SearchCall (JStr (str ''shoes''))]\<rparr>, Inr fallback_context)"
    by (simp add: stream_defs example_config_def failing_env_def no_organic_search_def str_def)
  have retry: "fetchWithRetry (ai failing_env) 2 =
      ([Fetched 0, Slept 1000, Fetched 1, Slept 2000, Fetched 2], Inr (Some (example_response 500)))"
    by (simp add: fetchWithRetry_def fetchWithRetry_from.simps failing_env_def failing_ai_def
        example_response_def accepted_def response_ok_def)
  show ?thesis
    using handshake_failure_frame [OF _ prep retry, of "str ''internal error''"]
    by (simp add: example_response_def response_ok_def str_def show_nat.simps)
qed

text \<open>
  C9. For a POST request whose JSON body has no keyword (or a falsy one), with the AI
  configuration present, the handler's stream carries the single missing-keyword frame,
  is closed, and no provider was called.
\<close>

theorem handler_missing_keyword:
  assumes "req_method req = str ''POST''" and "req_json req = Inr body"
    and "get_prop body (str ''keyword'') = Inr keyword" and "\<not> js_truthy keyword"
    and "env_set (apiKey cfg)" and "env_set (baseUrl cfg)"
  shows "handler cfg env req =
           StreamResponse
             (Finished \<lparr>frames = [Status MissingKeyword], closed = True, closings = 1,
                        calls = []\<rparr>)"
  using assms
  by (simp add: handler_def stream_start_def start_try_def sendStatus_def enqueue_def close_def
      close_quietly_def initial_world_def)

theorem handler_missing_keyword_witness:
  "handler example_config example_env (example_request (JObj [])) =
     StreamResponse
       (Finished \<lparr>frames = [Status MissingKeyword], closed = True, closings = 1, calls = []\<rparr>)"
  using handler_missing_keyword [of "example_request (JObj [])" "JObj []" JUndefined
      example_config example_env]
  by (simp add: example_request_def example_config_def env_set_def str_def)

end
